theory Spec2Isabelle
  imports Complex_Main "HOL-Library.AList"
begin

section \<open>JavaScript values used by the collector\<close>

text \<open>
  The program is TypeScript running on Node. Strings are modelled as \<open>string\<close>, read as
  the code units U+0000 .. U+00FF. \<open>null\<close> and \<open>undefined\<close> are \<open>None\<close>. A
  JavaScript number is an IEEE 754 double: \<open>NaN\<close>, an infinity, or a finite double,
  which is represented by the rational it denotes. The two zeros are one value
  \<open>Fin 0\<close>: the program tests numbers for truthiness, compares them and prints them
  as JSON, and none of these tells \<open>-0\<close> from \<open>0\<close>.
\<close>

datatype number = NaN | Fin rat | PosInf | NegInf

subsection \<open>Rounding to a double\<close>

text \<open>
  A decimal numeral and a quotient denote an exact rational; the number the program
  gets is the double nearest to it, ties going to the even significand, and an infinity
  when that double would be \<open>2 ^ 1024\<close> or more. \<open>binade a\<close> is the exponent \<open>e\<close>
  with \<open>pow2 e \<le> a < pow2 (e + 1)\<close>; the doubles of that binade are the multiples of
  \<open>pow2 (e - 52)\<close>, and below \<open>pow2 (- 1022)\<close> they are the multiples of
  \<open>pow2 (- 1074)\<close>.
\<close>

fun ilog2 :: "nat \<Rightarrow> nat" where
  \<comment> \<open>the integer part of the binary logarithm of a positive number\<close>
  "ilog2 n = (if n < 2 then 0 else Suc (ilog2 (n div 2)))"

definition binade :: "rat \<Rightarrow> int" where
  "binade a =
     (if 1 \<le> a then int (ilog2 (nat \<lfloor>a\<rfloor>))
      else - int (Suc (ilog2 (nat (\<lceil>1 / a\<rceil> - 1)))))"

definition pow2 :: "int \<Rightarrow> rat" where
  "pow2 e = (if 0 \<le> e then 2 ^ nat e else 1 / 2 ^ nat (- e))"

definition round_even :: "rat \<Rightarrow> int" where
  \<comment> \<open>the nearest integer, the even one of two that are equally near\<close>
  "round_even x =
     (let f = \<lfloor>x\<rfloor>; d = x - of_int f
      in if d < 1 / 2 then f
         else if 1 / 2 < d then f + 1
         else if even f then f else f + 1)"

definition to_double :: "rat \<Rightarrow> number" where
  "to_double q =
     (if q = 0 then Fin 0
      else
        (let a = \<bar>q\<bar>;
             e = max (binade a) (- 1022);
             u = pow2 (e - 52);
             r = of_int (round_even (a / u)) * u
         in if pow2 1024 \<le> r then (if q < 0 then NegInf else PosInf)
            else Fin (if q < 0 then - r else r)))"

subsection \<open>Tests and arithmetic\<close>

text \<open>Truthiness (\<open>ToBoolean\<close>) of a nullable number and of a nullable string.\<close>

definition truthy_num :: "number option \<Rightarrow> bool" where
  "truthy_num v =
     (case v of None \<Rightarrow> False
      | Some NaN \<Rightarrow> False
      | Some (Fin x) \<Rightarrow> x \<noteq> 0
      | Some PosInf \<Rightarrow> True
      | Some NegInf \<Rightarrow> True)"

definition truthy_str :: "string option \<Rightarrow> bool" where
  "truthy_str v = (case v of None \<Rightarrow> False | Some s \<Rightarrow> s \<noteq> [])"

text \<open>\<open>a > b\<close> on numbers: every comparison with \<open>NaN\<close> is false.\<close>

definition num_gt :: "number \<Rightarrow> rat \<Rightarrow> bool" where
  "num_gt a b =
     (case a of NaN \<Rightarrow> False | Fin x \<Rightarrow> b < x | PosInf \<Rightarrow> True | NegInf \<Rightarrow> False)"

text \<open>
  \<open>x / d\<close> for a positive finite divisor is the exact quotient rounded to a double.
  \<open>Math.round\<close> (ties go up) of a double is an integer that is a double again.
\<close>

definition num_div :: "number \<Rightarrow> rat \<Rightarrow> number" where
  "num_div a d = (case a of Fin x \<Rightarrow> to_double (x / d) | other \<Rightarrow> other)"

definition Math_round :: "number \<Rightarrow> number" where
  "Math_round a = (case a of Fin x \<Rightarrow> Fin (of_int \<lfloor>x + 1 / 2\<rfloor>) | other \<Rightarrow> other)"

subsection \<open>Characters and string methods\<close>

definition newline :: char where
  "newline = CHR 0x0A"

definition is_space :: "char \<Rightarrow> bool" where
  \<comment> \<open>white space and line terminators below U+0100: what \<open>trim\<close>, \<open>\s\<close> and the number
      parsers skip\<close>
  "is_space c = ((of_char c :: nat) \<in> {9, 10, 11, 12, 13, 32, 160})"

definition is_digit :: "char \<Rightarrow> bool" where
  "is_digit c = (48 \<le> (of_char c :: nat) \<and> (of_char c :: nat) \<le> 57)"

definition not_line_end :: "char \<Rightarrow> bool" where
  \<comment> \<open>the regular-expression dot\<close>
  "not_line_end c = ((of_char c :: nat) \<notin> {10, 13})"

definition digit_or_dot :: "char \<Rightarrow> bool" where
  \<comment> \<open>the class \<open>[\d.]\<close>\<close>
  "digit_or_dot c = (is_digit c \<or> c = CHR ''.'')"

definition digit_val :: "char \<Rightarrow> nat" where
  "digit_val c = of_char c - 48"

definition dec_value :: "string \<Rightarrow> nat" where
  "dec_value ds = foldl (\<lambda>a c. 10 * a + digit_val c) 0 ds"

definition to_upper :: "char \<Rightarrow> char" where
  "to_upper c =
     (if 97 \<le> (of_char c :: nat) \<and> (of_char c :: nat) \<le> 122
      then char_of ((of_char c :: nat) - 32) else c)"

definition js_trim :: "string \<Rightarrow> string" where
  "js_trim s = rev (dropWhile is_space (rev (dropWhile is_space s)))"

fun js_split :: "char \<Rightarrow> string \<Rightarrow> string list" where
  "js_split sep [] = [[]]"
| "js_split sep (c # cs) =
     (if c = sep then [] # js_split sep cs
      else (case js_split sep cs of [] \<Rightarrow> [[c]] | p # ps \<Rightarrow> (c # p) # ps))"

fun js_join :: "string \<Rightarrow> string list \<Rightarrow> string" where
  "js_join sep [] = []"
| "js_join sep [x] = x"
| "js_join sep (x # y # r) = x @ sep @ js_join sep (y # r)"

fun starts_with :: "string \<Rightarrow> string \<Rightarrow> bool" where
  "starts_with [] s = True"
| "starts_with (c # cs) [] = False"
| "starts_with (c # cs) (d # ds) = (c = d \<and> starts_with cs ds)"

fun js_includes :: "string \<Rightarrow> string \<Rightarrow> bool" where
  \<comment> \<open>\<open>s.includes(l)\<close>, with the arguments in the order \<open>l\<close>, \<open>s\<close>\<close>
  "js_includes l [] = (l = [])"
| "js_includes l (c # cs) = (starts_with l (c # cs) \<or> js_includes l cs)"

fun js_indexOf :: "string \<Rightarrow> string \<Rightarrow> nat option" where
  \<comment> \<open>\<open>s.indexOf(l)\<close>, \<open>None\<close> for \<open>-1\<close>\<close>
  "js_indexOf l [] = (if l = [] then Some 0 else None)"
| "js_indexOf l (c # cs) =
     (if starts_with l (c # cs) then Some 0 else map_option Suc (js_indexOf l cs))"

subsection \<open>\<open>Number.parseInt(s, 10)\<close> and \<open>Number.parseFloat(s)\<close>\<close>

text \<open>
  Both skip leading white space, read the longest prefix that is a numeral and ignore
  the rest; the result is the double nearest to the numeral read, as Node computes it
  for a numeral of any length.
\<close>

definition strip_sign :: "string \<Rightarrow> bool \<times> string" where
  "strip_sign t =
     (case t of [] \<Rightarrow> (False, [])
      | c # r \<Rightarrow> if c = CHR ''-'' then (True, r) else if c = CHR ''+'' then (False, r)
                 else (False, t))"

definition signed :: "bool \<Rightarrow> rat \<Rightarrow> rat" where
  "signed neg x = (if neg then - x else x)"

definition parseInt :: "string \<Rightarrow> number" where
  "parseInt s =
     (let (neg, u) = strip_sign (dropWhile is_space s);
          ds = takeWhile is_digit u
      in if ds = [] then NaN else to_double (signed neg (of_nat (dec_value ds))))"

definition exponent_part :: "string \<Rightarrow> int" where
  \<comment> \<open>\<open>e\<close> or \<open>E\<close>, an optional sign and at least one digit; otherwise no exponent\<close>
  "exponent_part r =
     (case r of [] \<Rightarrow> 0
      | c # r' \<Rightarrow>
          if c = CHR ''e'' \<or> c = CHR ''E'' then
            (let (neg, u) = strip_sign r'; ds = takeWhile is_digit u
             in if ds = [] then 0 else (if neg then - int (dec_value ds) else int (dec_value ds)))
          else 0)"

definition scale10 :: "rat \<Rightarrow> int \<Rightarrow> rat" where
  "scale10 m e = (if 0 \<le> e then m * 10 ^ nat e else m / 10 ^ nat (- e))"

definition parseFloat :: "string \<Rightarrow> number" where
  "parseFloat s =
     (let (neg, u) = strip_sign (dropWhile is_space s)
      in if starts_with ''Infinity'' u then (if neg then NegInf else PosInf)
         else
           (let ip = takeWhile is_digit u;
                r1 = dropWhile is_digit u;
                (fp, r2) =
                  (case r1 of [] \<Rightarrow> ([], [])
                   | c # r \<Rightarrow> if c = CHR ''.'' then (takeWhile is_digit r, dropWhile is_digit r)
                              else ([], r1))
            in if ip = [] \<and> fp = [] then NaN
               else to_double (signed neg
                      (scale10 (of_nat (dec_value (ip @ fp)) / 10 ^ length fp)
                         (exponent_part r2)))))"

section \<open>Regular expressions\<close>

text \<open>
  Every regular expression of the program is a sequence of literal characters and of
  greedily quantified single-character classes, with capture groups that are not nested
  and no alternation. \<open>Atom p lo hi\<close> is the class \<open>p\<close> repeated \<open>lo\<close> to \<open>hi\<close> times
  (\<open>None\<close>: unbounded); \<open>Open\<close> and \<open>Close\<close> delimit a capture group. The matcher
  backtracks as the JavaScript one does: a quantifier tries the longest repetition first
  (\<open>attempt r lo k\<close> tries \<open>k\<close> repetitions, then fewer, down to \<open>lo\<close>, each followed
  by the rest \<open>r\<close> of the expression), and \<open>js_match\<close>, which is
  \<open>String.prototype.match\<close> without the \<open>g\<close> flag, tries the start positions from
  left to right. Its result is the list of captured groups of the first match.
\<close>

datatype item = Atom "char \<Rightarrow> bool" nat "nat option" | Open | Close

fun run :: "item list \<Rightarrow> string \<Rightarrow> string option \<Rightarrow> string list \<Rightarrow> string list option"
  and attempt ::
    "item list \<Rightarrow> nat \<Rightarrow> nat \<Rightarrow> string \<Rightarrow> string option \<Rightarrow> string list \<Rightarrow> string list option"
where
  "run [] s cur caps = Some caps"
| "run (Open # r) s cur caps = run r s (Some []) caps"
| "run (Close # r) s cur caps =
     run r s None (caps @ [case cur of Some g \<Rightarrow> g | None \<Rightarrow> []])"
| "run (Atom p lo hi # r) s cur caps =
     attempt r lo
       (case hi of None \<Rightarrow> length (takeWhile p s) | Some h \<Rightarrow> min h (length (takeWhile p s)))
       s cur caps"
| "attempt r lo 0 s cur caps = (if lo = 0 then run r s cur caps else None)"
| "attempt r lo (Suc k) s cur caps =
     (if Suc k < lo then None
      else (case run r (drop (Suc k) s) (map_option (\<lambda>g. g @ take (Suc k) s) cur) caps of
              Some y \<Rightarrow> Some y
            | None \<Rightarrow> attempt r lo k s cur caps))"

fun js_match :: "item list \<Rightarrow> string \<Rightarrow> string list option" where
  "js_match re [] = run re [] None []"
| "js_match re (c # t) =
     (case run re (c # t) None [] of Some caps \<Rightarrow> Some caps | None \<Rightarrow> js_match re t)"

fun closes :: "item list \<Rightarrow> nat" where
  \<comment> \<open>the number of capture groups of an expression\<close>
  "closes [] = 0"
| "closes (Close # r) = Suc (closes r)"
| "closes (Open # r) = closes r"
| "closes (Atom p lo hi # r) = closes r"

definition lit :: "string \<Rightarrow> item list" where
  "lit s = map (\<lambda>c. Atom (\<lambda>x. x = c) 1 (Some 1)) s"

definition lit_i :: "string \<Rightarrow> item list" where
  \<comment> \<open>a literal under the \<open>i\<close> flag\<close>
  "lit_i s = map (\<lambda>c. Atom (\<lambda>x. to_upper x = to_upper c) 1 (Some 1)) s"

definition grp :: "item list \<Rightarrow> item list" where
  "grp r = Open # r @ [Close]"

definition plus :: "(char \<Rightarrow> bool) \<Rightarrow> item" where
  "plus p = Atom p 1 None"

definition star :: "(char \<Rightarrow> bool) \<Rightarrow> item" where
  "star p = Atom p 0 None"

definition opt :: "(char \<Rightarrow> bool) \<Rightarrow> item" where
  "opt p = Atom p 0 (Some 1)"

definition times :: "nat \<Rightarrow> (char \<Rightarrow> bool) \<Rightarrow> item" where
  "times n p = Atom p n (Some n)"

definition capture :: "string list \<Rightarrow> nat \<Rightarrow> string" where
  \<comment> \<open>\<open>m[i]\<close> for \<open>i \<ge> 1\<close>; every group of these expressions takes part in a match\<close>
  "capture caps i = (if 1 \<le> i \<and> i \<le> length caps then caps ! (i - 1) else [])"

section \<open>The parsers (parsers.ts)\<close>

record WifiStats =
  ssid :: "string option"
  bssid :: "string option"
  signalDbm :: "number option"
  noiseDbm :: "number option"
  channel :: "number option"
  band :: "string option"
  linkRateMbps :: "number option"

record PingStats =
  avgMs :: "number option"
  jitterMs :: "number option"
  lossPct :: "number option"

text \<open>
  \<open>parseAirportOutput\<close>: the loop over the lines fills the object \<open>data\<close>, here a map.
  \<open>airport_line\<close> is one iteration. The parser reads \<open>data\<close> at six fixed keys only,
  none of which is a property of \<open>Object.prototype\<close>, so a map gives what the object
  gives.
\<close>

definition airport_line :: "(string \<rightharpoonup> string) \<Rightarrow> string \<Rightarrow> (string \<rightharpoonup> string)" where
  "airport_line data line =
     (if CHR '':'' \<notin> set line then data
      else (case js_split (CHR '':'') line of
              [] \<Rightarrow> data
            | rawKey # rest \<Rightarrow>
                (let key = js_trim rawKey;
                     val = js_trim (js_join '':'' rest)
                 in if length key = 0 then data else data(key \<mapsto> val))))"

definition parseIntField :: "string option \<Rightarrow> number option" where
  \<comment> \<open>\<open>v ? Number.parseInt(v, 10) : null\<close>\<close>
  "parseIntField v = (if truthy_str v then map_option parseInt v else None)"

definition airport_data :: "string \<Rightarrow> (string \<rightharpoonup> string)" where
  \<comment> \<open>\<open>data\<close> after the loop\<close>
  "airport_data output = foldl airport_line Map.empty (js_split newline output)"

definition airport_record :: "(string \<rightharpoonup> string) \<Rightarrow> WifiStats" where
  \<comment> \<open>the statements after the loop\<close>
  "airport_record data =
     (let channelValue =
            (if truthy_str (data ''channel'')
             then (case data ''channel'' of None \<Rightarrow> None
                   | Some v \<Rightarrow> (case js_split (CHR '','') v of [] \<Rightarrow> None | p # ps \<Rightarrow> Some p))
             else None);
          channel = parseIntField channelValue;
          band =
            (if truthy_num channel
             then (case channel of None \<Rightarrow> None
                   | Some c \<Rightarrow> if num_gt c 14 then Some ''5 GHz'' else Some ''2.4 GHz'')
             else None);
          linkRate = parseIntField (data ''lastTxRate'')
      in \<lparr> ssid = data ''SSID'',
           bssid = data ''BSSID'',
           signalDbm = parseIntField (data ''agrCtlRSSI''),
           noiseDbm = parseIntField (data ''agrCtlNoise''),
           channel = channel,
           band = band,
           linkRateMbps = linkRate \<rparr>)"

definition parseAirportOutput :: "string \<Rightarrow> WifiStats" where
  "parseAirportOutput output = airport_record (airport_data output)"

definition re_ssid :: "item list" where
  \<comment> \<open>\<open>/Current Network Information:\s*\n\s{12}(.+):/\<close>\<close>
  "re_ssid = lit ''Current Network Information:'' @ [star is_space] @ lit [newline]
     @ [times 12 is_space] @ grp [plus not_line_end] @ lit '':''"

definition re_signal :: "item list" where
  \<comment> \<open>\<open>/Signal \/ Noise: (-?\d+) dBm \/ (-?\d+) dBm/\<close>\<close>
  "re_signal = lit ''Signal / Noise: '' @ grp [opt (\<lambda>c. c = CHR ''-''), plus is_digit]
     @ lit '' dBm / '' @ grp [opt (\<lambda>c. c = CHR ''-''), plus is_digit] @ lit '' dBm''"

definition re_channel :: "item list" where
  \<comment> \<open>\<open>/Channel: (\d+) \(([^)]+)\)/\<close>\<close>
  "re_channel = lit ''Channel: '' @ grp [plus is_digit] @ lit '' (''
     @ grp [plus (\<lambda>c. c \<noteq> CHR '')'')] @ lit '')''"

definition re_transmit :: "item list" where
  \<comment> \<open>\<open>/Transmit Rate: (\d+)/\<close>\<close>
  "re_transmit = lit ''Transmit Rate: '' @ grp [plus is_digit]"

definition re_band :: "item list" where
  \<comment> \<open>\<open>/(\d+\.?\d*)GHz/i\<close>\<close>
  "re_band = grp [plus is_digit, opt (\<lambda>c. c = CHR ''.''), star is_digit] @ lit_i ''GHz''"

definition parseSystemProfilerOutput :: "string \<Rightarrow> WifiStats" where
  "parseSystemProfilerOutput output =
     (let ssidMatch = js_match re_ssid output;
          signalMatch = js_match re_signal output;
          channelMatch = js_match re_channel output;
          transmitMatch = js_match re_transmit output;
          channel = map_option (\<lambda>m. parseInt (capture m 1)) channelMatch;
          band =
            (case channelMatch of None \<Rightarrow> None
             | Some m \<Rightarrow>
                 if capture m 2 \<noteq> [] then
                   (case js_match re_band (capture m 2) of None \<Rightarrow> None
                    | Some bandMatch \<Rightarrow> Some (capture bandMatch 1 @ '' GHz''))
                 else None)
      in \<lparr> ssid = map_option (\<lambda>m. js_trim (capture m 1)) ssidMatch,
           bssid = None,
           signalDbm = map_option (\<lambda>m. parseInt (capture m 1)) signalMatch,
           noiseDbm = map_option (\<lambda>m. parseInt (capture m 2)) signalMatch,
           channel = channel,
           band = band,
           linkRateMbps = map_option (\<lambda>m. parseInt (capture m 1)) transmitMatch \<rparr>)"

definition re_loss :: "item list" where
  \<comment> \<open>\<open>/([\d.]+)% packet loss/\<close>\<close>
  "re_loss = grp [plus digit_or_dot] @ lit ''% packet loss''"

definition re_rtt :: "item list" where
  \<comment> \<open>\<open>/round-trip min\/avg\/max\/stddev = ([\d.]+)\/([\d.]+)\/([\d.]+)\/([\d.]+) ms/\<close>\<close>
  "re_rtt = lit ''round-trip min/avg/max/stddev = '' @ grp [plus digit_or_dot] @ lit ''/''
     @ grp [plus digit_or_dot] @ lit ''/'' @ grp [plus digit_or_dot] @ lit ''/''
     @ grp [plus digit_or_dot] @ lit '' ms''"

definition parsePingStats :: "string \<Rightarrow> PingStats" where
  "parsePingStats output =
     (let lossMatch = js_match re_loss output;
          rttMatch = js_match re_rtt output
      in \<lparr> avgMs = map_option (\<lambda>m. parseFloat (capture m 2)) rttMatch,
           jitterMs = map_option (\<lambda>m. parseFloat (capture m 4)) rttMatch,
           lossPct = map_option (\<lambda>m. parseFloat (capture m 1)) lossMatch \<rparr>)"

text \<open>
  Notions for stating what a text contains: a line that carries a key, the value that
  the text gives to a key (that of the last line carrying it), and the label of the
  round-trip line.
\<close>

definition key_line :: "string \<Rightarrow> string \<Rightarrow> bool" where
  \<comment> \<open>the line has a colon, and \<open>k\<close> before its first colon\<close>
  "key_line k line =
     (CHR '':'' \<in> set line \<and> js_trim (takeWhile (\<lambda>c. c \<noteq> CHR '':'') line) = k)"

definition last_value :: "string \<Rightarrow> string \<Rightarrow> string option" where
  \<comment> \<open>what follows the first colon of the last line that carries \<open>k\<close>\<close>
  "last_value k s =
     (case rev (filter (key_line k) (js_split newline s)) of
        [] \<Rightarrow> None
      | line # earlier \<Rightarrow> Some (js_trim (tl (dropWhile (\<lambda>c. c \<noteq> CHR '':'') line))))"

definition rtt_label :: string where
  "rtt_label = ''round-trip min/avg/max/stddev = ''"

subsection \<open>What the parsers could throw\<close>

text \<open>
  The parsers have no \<open>throw\<close> statement, and the string methods, \<open>match\<close>,
  \<open>parseInt\<close> and \<open>parseFloat\<close> do not throw on a string. What could throw is a call
  of \<open>trim\<close> on \<open>undefined\<close>: \<open>rawKey.trim()\<close> if \<open>split\<close> gave an empty array, and
  \<open>ssidMatch[1].trim()\<close> if the group took no part in the match. The definitions above
  read these values as present. The following ones evaluate the same statements with a
  missing element or group as \<open>None\<close> and the \<open>TypeError\<close> as \<open>Inl\<close>; \<open>undefined\<close>
  passed to \<open>parseInt\<close> or \<open>parseFloat\<close>, or put into a template, becomes the text
  \<open>undefined\<close>.
\<close>

definition group_at :: "string list \<Rightarrow> nat \<Rightarrow> string option" where
  \<comment> \<open>\<open>m[i]\<close> for \<open>i \<ge> 1\<close>, \<open>undefined\<close> when the match has no such group\<close>
  "group_at m i = (if 1 \<le> i \<and> i \<le> length m then Some (m ! (i - 1)) else None)"

definition call_trim :: "string option \<Rightarrow> string + string" where
  \<comment> \<open>\<open>x.trim()\<close>\<close>
  "call_trim x = (case x of None \<Rightarrow> Inl ''TypeError'' | Some v \<Rightarrow> Inr (js_trim v))"

definition as_text :: "string option \<Rightarrow> string" where
  \<comment> \<open>\<open>ToString\<close> of a string or \<open>undefined\<close>\<close>
  "as_text x = (case x of None \<Rightarrow> ''undefined'' | Some v \<Rightarrow> v)"

definition airport_line_checked ::
  "(string \<rightharpoonup> string) \<Rightarrow> string \<Rightarrow> string + (string \<rightharpoonup> string)" where
  "airport_line_checked data line =
     (if CHR '':'' \<notin> set line then Inr data
      else
        (let parts = js_split (CHR '':'') line;
             rawKey = (case parts of [] \<Rightarrow> None | x # xs \<Rightarrow> Some x);
             rest = tl parts
         in case call_trim rawKey of
              Inl e \<Rightarrow> Inl e
            | Inr key \<Rightarrow>
                (let val = js_trim (js_join '':'' rest)
                 in if length key = 0 then Inr data else Inr (data(key \<mapsto> val)))))"

fun airport_loop ::
  "(string \<rightharpoonup> string) \<Rightarrow> string list \<Rightarrow> string + (string \<rightharpoonup> string)" where
  "airport_loop data [] = Inr data"
| "airport_loop data (line # lines) =
     (case airport_line_checked data line of
        Inl e \<Rightarrow> Inl e
      | Inr d \<Rightarrow> airport_loop d lines)"

definition parseAirportOutput_checked :: "string \<Rightarrow> string + WifiStats" where
  "parseAirportOutput_checked output =
     (case airport_loop Map.empty (js_split newline output) of
        Inl e \<Rightarrow> Inl e
      | Inr data \<Rightarrow> Inr (airport_record data))"

definition parseSystemProfilerOutput_checked :: "string \<Rightarrow> string + WifiStats" where
  "parseSystemProfilerOutput_checked output =
     (let ssidMatch = js_match re_ssid output;
          signalMatch = js_match re_signal output;
          channelMatch = js_match re_channel output;
          transmitMatch = js_match re_transmit output;
          channel = map_option (\<lambda>m. parseInt (as_text (group_at m 1))) channelMatch;
          band =
            (case channelMatch of None \<Rightarrow> None
             | Some m \<Rightarrow>
                 if truthy_str (group_at m 2) then
                   (case js_match re_band (as_text (group_at m 2)) of None \<Rightarrow> None
                    | Some bandMatch \<Rightarrow> Some (as_text (group_at bandMatch 1) @ '' GHz''))
                 else None)
      in case (case ssidMatch of None \<Rightarrow> Inr None
               | Some m \<Rightarrow> map_sum (\<lambda>e. e) Some (call_trim (group_at m 1))) of
           Inl e \<Rightarrow> Inl e
         | Inr name \<Rightarrow>
             Inr \<lparr> ssid = name,
                   bssid = None,
                   signalDbm = map_option (\<lambda>m. parseInt (as_text (group_at m 1))) signalMatch,
                   noiseDbm = map_option (\<lambda>m. parseInt (as_text (group_at m 2))) signalMatch,
                   channel = channel,
                   band = band,
                   linkRateMbps =
                     map_option (\<lambda>m. parseInt (as_text (group_at m 1))) transmitMatch \<rparr>)"

definition parsePingStats_checked :: "string \<Rightarrow> string + PingStats" where
  "parsePingStats_checked output =
     (let lossMatch = js_match re_loss output;
          rttMatch = js_match re_rtt output
      in Inr \<lparr> avgMs = map_option (\<lambda>m. parseFloat (as_text (group_at m 2))) rttMatch,
               jitterMs = map_option (\<lambda>m. parseFloat (as_text (group_at m 4))) rttMatch,
               lossPct = map_option (\<lambda>m. parseFloat (as_text (group_at m 1))) lossMatch \<rparr>)"

section \<open>The process runner and the probes (collector.ts)\<close>

text \<open>
  The outside world is a parameter. An \<open>executor\<close> stands for \<open>execFileAsync\<close>: for a
  command, its arguments and the options object it either never settles (\<open>None\<close>),
  resolves with the two output texts, or rejects with an error object that may carry
  \<open>stdout\<close>, \<open>stderr\<close> and \<open>message\<close>. A probe returns the events it caused, in
  order, with its value; \<open>None\<close> means that the probe never returns. The events are the
  calls of the logger, of the executor and of \<open>access\<close>.
\<close>

datatype optval = OStr string | ONum int | OBool bool

type_synonym exec_options = "(string \<times> optval) list"

record exec_failure =
  fail_stdout :: "string option"
  fail_stderr :: "string option"
  fail_message :: "string option"

datatype exec_outcome = ExecOk string string | ExecFail exec_failure

type_synonym executor = "string \<Rightarrow> string list \<Rightarrow> exec_options \<Rightarrow> exec_outcome option"

datatype level = LInfo | LSuccess | LError

text \<open>The data object of a log call has JSON values.\<close>

datatype jsonval =
    JNull
  | JBool bool
  | JNum number
  | JStr string
  | JArr "jsonval list"
  | JObj "(string \<times> jsonval) list"

datatype event =
    Log level string "(string \<times> jsonval) list"
  | Exec string "string list" exec_options
  | Access string

type_synonym 'a io = "(event list \<times> 'a) option"

definition ret :: "'a \<Rightarrow> 'a io" where
  "ret x = Some ([], x)"

definition emit :: "event \<Rightarrow> unit io" where
  "emit e = Some ([e], ())"

definition then_do :: "'a io \<Rightarrow> ('a \<Rightarrow> 'b io) \<Rightarrow> 'b io" where
  "then_do m f =
     (case m of None \<Rightarrow> None
      | Some (t, x) \<Rightarrow> (case f x of None \<Rightarrow> None | Some (t', y) \<Rightarrow> Some (t @ t', y)))"

definition log_event :: "level \<Rightarrow> string \<Rightarrow> (string \<times> jsonval) list \<Rightarrow> unit io" where
  "log_event l msg payload = emit (Log l msg payload)"

definition of_str :: "string option \<Rightarrow> jsonval" where
  "of_str v = (case v of None \<Rightarrow> JNull | Some s \<Rightarrow> JStr s)"

definition of_num :: "number option \<Rightarrow> jsonval" where
  "of_num v = (case v of None \<Rightarrow> JNull | Some n \<Rightarrow> JNum n)"

definition or_else :: "string \<Rightarrow> string \<Rightarrow> string" where
  \<comment> \<open>\<open>a || b\<close> on strings\<close>
  "or_else a b = (if a \<noteq> [] then a else b)"

definition spread :: "exec_options \<Rightarrow> exec_options \<Rightarrow> exec_options" where
  \<comment> \<open>\<open>{...base, ...extra}\<close>\<close>
  "spread base extra = foldl (\<lambda>acc (k, v). AList.update k v acc) base extra"

record CommandResult =
  stdout :: string
  stderr :: string
  error :: "exec_failure option"

definition AIRPORT_PATH :: string where
  "AIRPORT_PATH =
     ''/System/Library/PrivateFrameworks/Apple80211.framework/Versions/Current/Resources/airport''"

definition command_result :: "exec_outcome \<Rightarrow> CommandResult" where
  \<comment> \<open>the two \<open>return\<close> statements of \<open>runCommand\<close>\<close>
  "command_result settled =
     (case settled of
        ExecOk out err \<Rightarrow> \<lparr> stdout = out, stderr = err, error = None \<rparr>
      | ExecFail err \<Rightarrow>
          \<lparr> stdout = (case fail_stdout err of Some s \<Rightarrow> s | None \<Rightarrow> []),
            stderr =
              (case fail_stderr err of Some s \<Rightarrow> s
               | None \<Rightarrow> (case fail_message err of Some m \<Rightarrow> m | None \<Rightarrow> ''command failed'')),
            error = Some err \<rparr>)"

definition runCommand ::
  "executor \<Rightarrow> string \<Rightarrow> string list \<Rightarrow> exec_options \<Rightarrow> CommandResult io" where
  "runCommand exec command args options =
     (let opts = spread [(''encoding'', OStr ''utf8'')] options
      in then_do (emit (Exec command args opts)) (\<lambda>_.
           case exec command args opts of
             None \<Rightarrow> None
           | Some settled \<Rightarrow> ret (command_result settled)))"

text \<open>
  \<open>getAirportInfo\<close>. \<open>access\<close> gives \<open>None\<close> when the path exists and the message of
  the error otherwise. The value bound to \<open>early\<close> is the record returned from inside
  the \<open>if (hasAirport)\<close> block, if any.
\<close>

definition getAirportInfo ::
  "(string \<Rightarrow> string option) \<Rightarrow> executor \<Rightarrow> WifiStats option io" where
  "getAirportInfo access exec =
     then_do (log_event LInfo ''collect.airport.start'' [(''command'', JStr AIRPORT_PATH)]) (\<lambda>_.
     then_do (emit (Access AIRPORT_PATH)) (\<lambda>_.
     then_do
       (case access AIRPORT_PATH of
          None \<Rightarrow> ret True
        | Some message \<Rightarrow>
            then_do (log_event LError ''collect.airport.missing'' [(''error'', JStr message)])
              (\<lambda>_. ret False)) (\<lambda>hasAirport.
     then_do
       (if hasAirport then
          then_do (runCommand exec AIRPORT_PATH [''-I''] []) (\<lambda>result.
            if error result = None then
              (let parsed = parseAirportOutput (stdout result)
               in then_do
                    (log_event LSuccess ''collect.airport.success''
                       [(''ssid'', of_str (ssid parsed))])
                    (\<lambda>_. ret (Some parsed)))
            else
              then_do
                (log_event LError ''collect.airport.error'' [(''stderr'', JStr (stderr result))])
                (\<lambda>_. ret None))
        else ret None) (\<lambda>early.
     case early of
       Some parsed \<Rightarrow> ret (Some parsed)
     | None \<Rightarrow>
         then_do (log_event LInfo ''collect.system-profiler.start'' []) (\<lambda>_.
         then_do
           (runCommand exec ''system_profiler''
              [''SPAirPortDataType'', ''-detailLevel'', ''basic''] []) (\<lambda>profilerResult.
           if error profilerResult \<noteq> None then
             then_do
               (log_event LError ''collect.system-profiler.error''
                  [(''stderr'', JStr (stderr profilerResult))])
               (\<lambda>_. ret None)
           else
             (let parsed = parseSystemProfilerOutput (stdout profilerResult)
              in then_do
                   (log_event LSuccess ''collect.system-profiler.success''
                      [(''ssid'', of_str (ssid parsed))])
                   (\<lambda>_. ret (Some parsed)))))))))"

definition re_gateway :: "item list" where
  \<comment> \<open>\<open>/gateway: (.+)/\<close>\<close>
  "re_gateway = lit ''gateway: '' @ grp [plus not_line_end]"

definition getDefaultGateway :: "executor \<Rightarrow> string option io" where
  "getDefaultGateway exec =
     then_do (log_event LInfo ''collect.gateway.start'' []) (\<lambda>_.
     then_do (runCommand exec ''route'' [''-n'', ''get'', ''default''] []) (\<lambda>result.
       (let gateway = map_option (\<lambda>m. js_trim (capture m 1)) (js_match re_gateway (stdout result))
        in if \<not> truthy_str gateway then
             then_do
               (log_event LError ''collect.gateway.error'' [(''stderr'', JStr (stderr result))])
               (\<lambda>_. ret None)
           else
             then_do (log_event LSuccess ''collect.gateway.success'' [(''gateway'', of_str gateway)])
               (\<lambda>_. ret gateway))))"

record PingResult = PingStats +
  target :: string
  samples :: nat
  ping_error :: "string option"

fun string_of_nat :: "nat \<Rightarrow> string" where
  \<comment> \<open>\<open>String(count)\<close> for a whole number below \<open>10^21\<close>\<close>
  "string_of_nat n =
     (if n < 10 then [char_of (48 + n)]
      else string_of_nat (n div 10) @ [char_of (48 + n mod 10)])"

definition pingHost :: "executor \<Rightarrow> string \<Rightarrow> nat \<Rightarrow> PingResult io" where
  "pingHost exec host count =
     then_do
       (log_event LInfo ''collect.ping.start''
          [(''host'', JStr host), (''count'', JNum (Fin (of_nat count)))]) (\<lambda>_.
     then_do (runCommand exec ''ping'' [''-n'', ''-c'', string_of_nat count, host] []) (\<lambda>result.
       (let stats = parsePingStats (stdout result)
        in if \<not> truthy_num (avgMs stats) \<and> error result \<noteq> None then
             then_do
               (log_event LError ''collect.ping.error''
                  [(''host'', JStr host), (''stderr'', JStr (stderr result))])
               (\<lambda>_. ret \<lparr> avgMs = None, jitterMs = None, lossPct = None,
                            target = host, samples = count,
                            ping_error = Some (or_else (stderr result) ''ping failed'') \<rparr>)
           else
             then_do
               (log_event LSuccess ''collect.ping.success''
                  [(''host'', JStr host), (''avgMs'', of_num (avgMs stats)),
                   (''jitterMs'', of_num (jitterMs stats)), (''lossPct'', of_num (lossPct stats))])
               (\<lambda>_. ret \<lparr> avgMs = avgMs stats, jitterMs = jitterMs stats,
                            lossPct = lossPct stats,
                            target = host, samples = count,
                            ping_error =
                              (if error result \<noteq> None then Some (stderr result) else None) \<rparr>))))"

definition re_nameserver :: "item list" where
  \<comment> \<open>\<open>/nameserver\[0\] : ([\d.]+)/\<close>\<close>
  "re_nameserver = lit ''nameserver[0] : '' @ grp [plus digit_or_dot]"

definition getDnsServer :: "executor \<Rightarrow> string option io" where
  "getDnsServer exec =
     then_do (log_event LInfo ''collect.dns-server.start'' []) (\<lambda>_.
     then_do (runCommand exec ''scutil'' [''--dns''] []) (\<lambda>result.
       (let server = map_option (\<lambda>m. capture m 1) (js_match re_nameserver (stdout result))
        in if \<not> truthy_str server then
             then_do
               (log_event LError ''collect.dns-server.error'' [(''stderr'', JStr (stderr result))])
               (\<lambda>_. ret None)
           else
             then_do (log_event LSuccess ''collect.dns-server.success'' [(''server'', of_str server)])
               (\<lambda>_. ret server))))"

record DnsLookupResult =
  host :: string
  server :: "string option"
  lookupMs :: "number option"
  dns_error :: "string option"

definition re_query :: "item list" where
  \<comment> \<open>\<open>/Query time: (\d+) msec/\<close>\<close>
  "re_query = lit ''Query time: '' @ grp [plus is_digit] @ lit '' msec''"

definition dnsLookup :: "executor \<Rightarrow> string \<Rightarrow> string option \<Rightarrow> DnsLookupResult io" where
  "dnsLookup exec h srv =
     then_do
       (log_event LInfo ''collect.dns-lookup.start'' [(''host'', JStr h), (''server'', of_str srv)])
       (\<lambda>_.
     (let args = [''+stats'', ''+tries=1'', ''+time=2'', h]
               @ (if truthy_str srv then (case srv of Some s \<Rightarrow> [''@'' @ s] | None \<Rightarrow> []) else [])
      in then_do (runCommand exec ''dig'' args []) (\<lambda>result.
           (let lookup = map_option (\<lambda>m. parseInt (capture m 1)) (js_match re_query (stdout result))
            in if lookup = None then
                 then_do
                   (log_event LError ''collect.dns-lookup.error''
                      [(''stderr'', JStr (stderr result))])
                   (\<lambda>_. ret \<lparr> host = h, server = srv, lookupMs = None,
                                dns_error = Some (or_else (stderr result) ''dns lookup failed'') \<rparr>)
               else
                 then_do
                   (log_event LSuccess ''collect.dns-lookup.success''
                      [(''host'', JStr h), (''lookupMs'', of_num lookup)])
                   (\<lambda>_. ret \<lparr> host = h, server = srv, lookupMs = lookup,
                                dns_error =
                                  (if error result \<noteq> None then Some (stderr result)
                                   else None) \<rparr>)))))"

subsection \<open>The speed test\<close>

text \<open>
  \<open>JSON.parse\<close> belongs to the language: it is a parameter \<open>json_parse\<close> that gives the
  message of the \<open>SyntaxError\<close> (\<open>Inl\<close>) or the decoded value. The objects it returns
  have each key once. The cast to \<open>SpeedTestRaw\<close> checks nothing at run time, so the
  decoded value may be any JSON value: reading a property of \<open>null\<close> throws a
  \<open>TypeError\<close> outside the \<open>try\<close> block, which rejects the promise of
  \<open>runSpeedTest\<close> (\<open>Inl\<close>, the name of the error standing for its message); reading one
  of a number, string, boolean or array gives \<open>undefined\<close>. The conversion of a string, array or object to a number in
  \<open>x / 1_000_000\<close> is the parameter \<open>coerce\<close>.
\<close>

definition get_prop :: "jsonval \<Rightarrow> string \<Rightarrow> jsonval option" where
  \<comment> \<open>\<open>parsed.key\<close> for the keys of \<open>SpeedTestRaw\<close> on a value that is not \<open>null\<close>\<close>
  "get_prop v key = (case v of JObj kvs \<Rightarrow> map_of kvs key | other \<Rightarrow> None)"

definition truthy_json :: "jsonval option \<Rightarrow> bool" where
  "truthy_json v =
     (case v of None \<Rightarrow> False
      | Some JNull \<Rightarrow> False
      | Some (JBool b) \<Rightarrow> b
      | Some (JNum n) \<Rightarrow> truthy_num (Some n)
      | Some (JStr s) \<Rightarrow> s \<noteq> []
      | Some (JArr xs) \<Rightarrow> True
      | Some (JObj kvs) \<Rightarrow> True)"

definition ToNumber :: "(jsonval \<Rightarrow> number) \<Rightarrow> jsonval \<Rightarrow> number" where
  "ToNumber coerce v =
     (case v of JNum n \<Rightarrow> n
      | JBool b \<Rightarrow> Fin (if b then 1 else 0)
      | JNull \<Rightarrow> Fin 0
      | other \<Rightarrow> coerce other)"

definition nullish :: "jsonval option \<Rightarrow> jsonval option" where
  \<comment> \<open>\<open>v ?? null\<close>\<close>
  "nullish v = (case v of None \<Rightarrow> None | Some JNull \<Rightarrow> None | Some x \<Rightarrow> Some x)"

definition toMbps :: "(jsonval \<Rightarrow> number) \<Rightarrow> jsonval option \<Rightarrow> number option" where
  \<comment> \<open>\<open>v ? Math.round(v / 1_000_000) : null\<close>\<close>
  "toMbps coerce v =
     (if truthy_json v
      then map_option (\<lambda>x. Math_round (num_div (ToNumber coerce x) 1000000)) v
      else None)"

record SpeedTestMeta =
  startDate :: "jsonval option"
  endDate :: "jsonval option"
  osVersion :: "jsonval option"

record SpeedTestResult =
  downloadMbps :: "number option"
  uploadMbps :: "number option"
  baseRttMs :: "jsonval option"
  responsivenessMs :: "jsonval option"
  interfaceName :: "jsonval option"
  endpoint :: "jsonval option"
  raw :: "SpeedTestMeta option"
  speed_error :: "string option"

definition speed_failure :: "string \<Rightarrow> SpeedTestResult" where
  \<comment> \<open>the object literal of both error returns\<close>
  "speed_failure msg =
     \<lparr> downloadMbps = None, uploadMbps = None, baseRttMs = None, responsivenessMs = None,
       interfaceName = None, endpoint = None, raw = None, speed_error = Some msg \<rparr>"

definition runSpeedTest ::
  "(string \<Rightarrow> string + jsonval) \<Rightarrow> (jsonval \<Rightarrow> number) \<Rightarrow> executor
     \<Rightarrow> (string + SpeedTestResult) io" where
  "runSpeedTest json_parse coerce exec =
     then_do (log_event LInfo ''collect.speedtest.start'' []) (\<lambda>_.
     then_do (runCommand exec ''networkQuality'' [''-c''] []) (\<lambda>result.
       if error result \<noteq> None then
         then_do
           (log_event LError ''collect.speedtest.error'' [(''stderr'', JStr (stderr result))])
           (\<lambda>_. ret (Inr (speed_failure (or_else (stderr result) ''networkQuality failed''))))
       else
         (case json_parse (stdout result) of
            Inl message \<Rightarrow>
              then_do
                (log_event LError ''collect.speedtest.parse-error'' [(''error'', JStr message)])
                (\<lambda>_. ret (Inr (speed_failure ''networkQuality output parse failed'')))
          | Inr JNull \<Rightarrow> ret (Inl ''TypeError'')
          | Inr parsed \<Rightarrow>
              (let download = toMbps coerce (get_prop parsed ''dl_throughput'');
                   upload = toMbps coerce (get_prop parsed ''ul_throughput'');
                   response =
                     \<lparr> downloadMbps = download,
                       uploadMbps = upload,
                       baseRttMs = nullish (get_prop parsed ''base_rtt''),
                       responsivenessMs = nullish (get_prop parsed ''responsiveness''),
                       interfaceName = nullish (get_prop parsed ''interface_name''),
                       endpoint = nullish (get_prop parsed ''test_endpoint''),
                       raw = Some \<lparr> startDate = nullish (get_prop parsed ''start_date''),
                                    endDate = nullish (get_prop parsed ''end_date''),
                                    osVersion = nullish (get_prop parsed ''os_version'') \<rparr>,
                       speed_error = None \<rparr>
               in then_do
                    (log_event LSuccess ''collect.speedtest.success''
                       [(''downloadMbps'', of_num download), (''uploadMbps'', of_num upload),
                        (''baseRttMs'',
                           (case baseRttMs response of None \<Rightarrow> JNull | Some j \<Rightarrow> j))])
                    (\<lambda>_. ret (Inr response))))))"

section \<open>The aggregator (\<open>main\<close> of cli.ts, from the first probe to the error flag)\<close>

record Options =
  json :: bool
  pretty :: bool
  opt_samples :: nat
  internetHost :: string
  routerHost :: "string option"
  dnsHost :: string
  opt_speedtest :: bool
  noColor :: bool

datatype dns_source = Router | System

text \<open>
  \<open>OutputData\<close> with its nested objects flattened: \<open>router.gateway\<close> is
  \<open>router_gateway\<close>, and so on.
\<close>

record OutputData =
  timestamp :: string
  wifi :: "WifiStats option"
  router_gateway :: "string option"
  router_ping :: "PingResult option"
  internet_target :: string
  internet_ping :: "PingResult option"
  dns_server :: "string option"
  dns_source :: dns_source
  dns_lookup :: "DnsLookupResult option"
  speedtest :: "SpeedTestResult option"
  meta_samples :: nat
  meta_dnsHost :: string
  meta_speedtest :: bool

definition hadError ::
  "WifiStats option \<Rightarrow> string option \<Rightarrow> string option \<Rightarrow> PingResult option
     \<Rightarrow> PingResult option \<Rightarrow> DnsLookupResult option \<Rightarrow> bool \<Rightarrow> SpeedTestResult option
     \<Rightarrow> bool" where
  "hadError wifi_v gateway dnsServer routerPing internetPing dnsResult want_speed speed =
     (let h0 = (wifi_v = None \<or> \<not> truthy_str gateway \<or> \<not> truthy_str dnsServer
                \<or> routerPing = None \<or> internetPing = None \<or> dnsResult = None);
          h1 = (if truthy_str (Option.bind routerPing ping_error)
                   \<or> truthy_str (Option.bind internetPing ping_error)
                   \<or> truthy_str (Option.bind dnsResult dns_error)
                then True else h0);
          h2 = (if want_speed \<and> truthy_str (Option.bind speed speed_error) then True else h1)
      in h2)"

datatype 'a outcome = Hang | Crash string | Done 'a

text \<open>
  The three discovery probes are awaited one after the other; the four dependent probes
  run under \<open>Promise.all\<close>, which rejects as soon as one of them rejects and otherwise
  waits for all. The order in which concurrent probes log is not fixed, so \<open>collect\<close>
  returns the report and the flag without the events. \<open>now\<close> is the text of
  \<open>new Date().toISOString()\<close>.
\<close>

definition value_of :: "'a io \<Rightarrow> 'a option" where
  "value_of m = map_option snd m"

definition collect ::
  "string \<Rightarrow> (string \<Rightarrow> string option) \<Rightarrow> executor \<Rightarrow> (string \<Rightarrow> string + jsonval)
     \<Rightarrow> (jsonval \<Rightarrow> number) \<Rightarrow> Options \<Rightarrow> (OutputData \<times> bool) outcome" where
  "collect now access exec json_parse coerce options =
     (case value_of (getAirportInfo access exec) of None \<Rightarrow> Hang
      | Some wifi_v \<Rightarrow>
     (case (case routerHost options of Some h \<Rightarrow> Some (Some h)
            | None \<Rightarrow> value_of (getDefaultGateway exec)) of None \<Rightarrow> Hang
      | Some gateway \<Rightarrow>
     (case value_of (getDnsServer exec) of None \<Rightarrow> Hang
      | Some dnsServer \<Rightarrow>
     (let p1 = (if truthy_str gateway
                then (case gateway of None \<Rightarrow> Some None
                      | Some g \<Rightarrow> map_option Some (value_of (pingHost exec g (opt_samples options))))
                else Some None);
          p2 = value_of (pingHost exec (internetHost options) (opt_samples options));
          p3 = value_of (dnsLookup exec (dnsHost options) dnsServer);
          p4 = (if opt_speedtest options
                then map_option (map_sum id Some) (value_of (runSpeedTest json_parse coerce exec))
                else Some (Inr None))
      in case p4 of Some (Inl e) \<Rightarrow> Crash e
         | _ \<Rightarrow>
        (case (p1, p2, p3, p4) of
           (Some routerPing, Some internetPing, Some dnsResult, Some (Inr speed)) \<Rightarrow>
             Done
               (\<lparr> timestamp = now,
                   wifi = wifi_v,
                   router_gateway = gateway,
                   router_ping = routerPing,
                   internet_target = internetHost options,
                   internet_ping = Some internetPing,
                   dns_server = dnsServer,
                   dns_source =
                     (if truthy_str dnsServer \<and> truthy_str gateway \<and> dnsServer = gateway
                      then Router else System),
                   dns_lookup = Some dnsResult,
                   speedtest = speed,
                   meta_samples = opt_samples options,
                   meta_dnsHost = dnsHost options,
                   meta_speedtest = opt_speedtest options \<rparr>,
                hadError wifi_v gateway dnsServer routerPing (Some internetPing) (Some dnsResult)
                  (opt_speedtest options) speed)
         | _ \<Rightarrow> Hang)))))"

section \<open>Concrete runs\<close>

text \<open>Inputs and environments on which the theorems below are evaluated.\<close>

definition utf8_only :: exec_options where
  "utf8_only = [(''encoding'', OStr ''utf8'')]"

definition ping_sample :: string where
  "ping_sample = ''12 packets transmitted, 12 packets received, 0.0% packet loss'' @ [newline]
     @ ''round-trip min/avg/max/stddev = 9.123/10.456/11.789/0.987 ms''"

definition zero_out :: string where
  "zero_out = ''1 packets transmitted, 1 packets received, 0.0% packet loss'' @ [newline]
     @ ''round-trip min/avg/max/stddev = 0.000/0.000/0.000/0.000 ms''"

definition zero_exec :: executor where
  \<comment> \<open>a ping that prints a summary with an average of 0 ms and exits with an error\<close>
  "zero_exec c a opts =
     Some (ExecFail \<lparr> fail_stdout = Some zero_out, fail_stderr = Some ''interrupted'',
                      fail_message = Some ''Command failed'' \<rparr>)"

definition ok_exec :: "string \<Rightarrow> executor" where
  \<comment> \<open>every command succeeds and prints \<open>out\<close>\<close>
  "ok_exec out c a opts = Some (ExecOk out [])"

definition fail_exec :: "string \<Rightarrow> executor" where
  \<comment> \<open>every command fails, printing \<open>err\<close> on its error stream\<close>
  "fail_exec err c a opts =
     Some (ExecFail \<lparr> fail_stdout = Some [], fail_stderr = Some err,
                      fail_message = Some ''Command failed'' \<rparr>)"

definition json_const :: "string + jsonval \<Rightarrow> string \<Rightarrow> string + jsonval" where
  \<comment> \<open>a decoder fixed at one result\<close>
  "json_const r s = r"

definition zero_json :: jsonval where
  \<comment> \<open>\<open>{"dl_throughput": 0, "ul_throughput": 12400000}\<close>\<close>
  "zero_json = JObj [(''dl_throughput'', JNum (Fin 0)), (''ul_throughput'', JNum (Fin 12400000))]"

definition absent_json :: jsonval where
  \<comment> \<open>\<open>{"ul_throughput": 12400000}\<close>\<close>
  "absent_json = JObj [(''ul_throughput'', JNum (Fin 12400000))]"

definition no_coerce :: "jsonval \<Rightarrow> number" where
  "no_coerce v = NaN"

definition stalled_exec :: executor where
  \<comment> \<open>a process that never exits, under an executor that enforces a \<open>timeout\<close> option\<close>
  "stalled_exec c a opts =
     (case map_of opts ''timeout'' of
        None \<Rightarrow> None
      | Some limit \<Rightarrow>
          Some (ExecFail \<lparr> fail_stdout = Some [], fail_stderr = Some [],
                           fail_message = Some ''Command failed: timed out'' \<rparr>))"

definition missing :: "string \<Rightarrow> string option" where
  \<comment> \<open>\<open>access\<close> when the path does not exist\<close>
  "missing p = Some ''ENOENT: no such file or directory''"

definition profiler_sample :: string where
  "profiler_sample = ''Wi-Fi:'' @ [newline] @ ''      Interfaces:'' @ [newline]
     @ ''        en0:'' @ [newline] @ ''          Current Network Information:'' @ [newline]
     @ ''            MyHome:'' @ [newline] @ ''              Channel: 48 (5GHz, 80MHz)'' @ [newline]
     @ ''              Signal / Noise: -51 dBm / -91 dBm'' @ [newline]
     @ ''              Transmit Rate: 960''"

definition home_exec :: executor where
  \<comment> \<open>every tool succeeds; \<open>ping\<close> prints nothing\<close>
  "home_exec c a opts =
     (if c = ''route'' then Some (ExecOk ''gateway: 10.0.0.1'' [])
      else if c = ''scutil'' then Some (ExecOk ''nameserver[0] : 10.0.0.1'' [])
      else if c = ''dig'' then Some (ExecOk ''Query time: 5 msec'' [])
      else if c = ''ping'' then Some (ExecOk [] [])
      else if c = ''system_profiler'' then Some (ExecOk profiler_sample [])
      else None)"

definition home_options :: Options where
  "home_options =
     \<lparr> json = True, pretty = False, opt_samples = 1, internetHost = ''1.1.1.1'',
       routerHost = None, dnsHost = ''cloudflare.com'', opt_speedtest = False, noColor = False \<rparr>"

definition silent_ping :: "string \<Rightarrow> PingResult" where
  "silent_ping h =
     \<lparr> avgMs = None, jitterMs = None, lossPct = None, target = h, samples = 1,
       ping_error = None \<rparr>"

definition home_report :: OutputData where
  "home_report =
     \<lparr> timestamp = ''2026-01-25T14:25:00.000Z'',
       wifi = Some \<lparr> ssid = Some ''MyHome'', bssid = None, signalDbm = Some (Fin (- 51)),
                     noiseDbm = Some (Fin (- 91)), channel = Some (Fin 48),
                     band = Some ''5 GHz'', linkRateMbps = Some (Fin 960) \<rparr>,
       router_gateway = Some ''10.0.0.1'',
       router_ping = Some (silent_ping ''10.0.0.1''),
       internet_target = ''1.1.1.1'',
       internet_ping = Some (silent_ping ''1.1.1.1''),
       dns_server = Some ''10.0.0.1'',
       dns_source = Router,
       dns_lookup = Some \<lparr> host = ''cloudflare.com'', server = Some ''10.0.0.1'',
                           lookupMs = Some (Fin 5), dns_error = None \<rparr>,
       speedtest = None,
       meta_samples = 1,
       meta_dnsHost = ''cloudflare.com'',
       meta_speedtest = False \<rparr>"

definition long_channel :: string where
  \<comment> \<open>a channel of 400 digits\<close>
  "long_channel = ''channel: '' @ replicate 400 (CHR ''9'')"

definition ping_partial :: string where
  \<comment> \<open>both labels of a ping summary, with figures that do not fit the patterns\<close>
  "ping_partial = ''3 packets transmitted, 0 packets received, -- % packet loss'' @ [newline]
     @ ''round-trip min/avg/max/stddev = 9.123/10.456 ms''"

definition profiler_partial :: string where
  \<comment> \<open>a channel without a band annotation in GHz, and half of the signal line\<close>
  "profiler_partial = ''Channel: 48 (wide)'' @ [newline] @ ''Signal / Noise: -51 dBm''"

definition airport_partial :: string where
  \<comment> \<open>two keys whose values are empty, the second up to its comma\<close>
  "airport_partial = ''agrCtlRSSI:'' @ [newline] @ ''channel: ,1''"

text \<open>The error flag as the specification words it.\<close>

definition spec_ping_failed :: "PingResult \<Rightarrow> bool" where
  "spec_ping_failed p =
     (ping_error p \<noteq> None \<or> (avgMs p = None \<and> jitterMs p = None \<and> lossPct p = None))"

definition spec_lookup_failed :: "DnsLookupResult \<Rightarrow> bool" where
  "spec_lookup_failed d = (dns_error d \<noteq> None \<or> lookupMs d = None)"

definition spec_hadError :: "OutputData \<Rightarrow> bool" where
  "spec_hadError out =
     (wifi out = None \<or> router_gateway out = None \<or> dns_server out = None
      \<or> (case router_ping out of None \<Rightarrow> True | Some p \<Rightarrow> spec_ping_failed p)
      \<or> (case internet_ping out of None \<Rightarrow> True | Some p \<Rightarrow> spec_ping_failed p)
      \<or> (case dns_lookup out of None \<Rightarrow> True | Some d \<Rightarrow> spec_lookup_failed d)
      \<or> (meta_speedtest out
          \<and> (case speedtest out of None \<Rightarrow> False | Some r \<Rightarrow> speed_error r \<noteq> None)))"

section \<open>Basic facts\<close>

declare js_match.simps [simp del] string_of_nat.simps [simp del] ilog2.simps [simp del]

lemma then_do_ret [simp]: "then_do (ret x) f = f x"
  by (simp add: then_do_def ret_def split: option.splits)

lemma then_do_emit [simp]: "then_do (emit e) f = map_option (\<lambda>(t, y). (e # t, y)) (f ())"
  by (simp add: then_do_def emit_def split: option.splits)

lemma then_do_log [simp]:
  "then_do (log_event l msg d) f = map_option (\<lambda>(t, y). (Log l msg d # t, y)) (f ())"
  by (simp add: log_event_def)

lemma then_do_None [simp]: "then_do None f = None"
  by (simp add: then_do_def)

lemma then_do_Some [simp]:
  "then_do (Some (t, x)) f = map_option (\<lambda>(t', y). (t @ t', y)) (f x)"
  by (simp add: then_do_def split: option.splits)

lemma spread_empty [simp]: "spread base [] = base"
  by (simp add: spread_def)

lemma runCommand_plain:
  "runCommand exec c a [] =
     map_option (\<lambda>settled. ([Exec c a utf8_only], command_result settled)) (exec c a utf8_only)"
  by (simp add: runCommand_def utf8_only_def ret_def Let_def split: option.splits)

text \<open>An integer below \<open>2 ^ 53\<close> in absolute value is a double.\<close>

lemma ilog2_bounds: "0 < n \<Longrightarrow> 2 ^ ilog2 n \<le> n \<and> n < 2 ^ Suc (ilog2 n)"
proof (induction n rule: ilog2.induct)
  case (1 n)
  show ?case
  proof (cases "n < 2")
    case True
    with 1(2) have "n = 1" by simp
    then show ?thesis by (simp add: ilog2.simps)
  next
    case False
    then have "0 < n div 2" by simp
    with 1(1) False
    have ih: "2 ^ ilog2 (n div 2) \<le> n div 2 \<and> n div 2 < 2 ^ Suc (ilog2 (n div 2))"
      by simp
    have eq: "ilog2 n = Suc (ilog2 (n div 2))"
      using False by (subst ilog2.simps) simp
    from ih show ?thesis unfolding eq by auto
  qed
qed

lemma round_even_int [simp]: "round_even (of_int k) = k"
  by (simp add: round_even_def)

lemma to_double_nat:
  assumes "m < 2 ^ 53"
  shows "to_double (of_nat m) = Fin (of_nat m)"
proof (cases "m = 0")
  case True
  then show ?thesis by (simp add: to_double_def)
next
  case False
  then have pos: "0 < m" by simp
  define e where "e = ilog2 m"
  have b: "2 ^ e \<le> m" "m < 2 ^ Suc e"
    using ilog2_bounds [OF pos] by (simp_all add: e_def)
  have "(2::nat) ^ e < 2 ^ 53" using b(1) assms by (rule le_less_trans)
  then have "e < 53" by (rule power_less_imp_less_exp [rotated]) simp
  then have e52: "e \<le> 52" by simp
  have one: "(1::rat) \<le> of_nat m" using pos by simp
  have bin: "binade (of_nat m) = int e"
    using one by (simp add: binade_def e_def)
  have u: "pow2 (int e - 52) = 1 / 2 ^ (52 - e)"
    using e52 by (auto simp add: pow2_def nat_diff_distrib' dest: antisym)
  have q: "(of_nat m :: rat) / (1 / 2 ^ (52 - e)) = of_int (int (m * 2 ^ (52 - e)))"
    by simp
  have r: "of_int (round_even ((of_nat m :: rat) / (1 / 2 ^ (52 - e)))) * (1 / 2 ^ (52 - e))
             = (of_nat m :: rat)"
    unfolding q round_even_int by simp
  have small: "\<not> pow2 1024 \<le> (of_nat m :: rat)"
  proof -
    have "(of_nat m :: rat) < of_nat (2 ^ 53)" using assms by (simp only: of_nat_less_iff)
    also have "\<dots> \<le> 2 ^ 1024" by simp
    finally show ?thesis by (simp add: pow2_def)
  qed
  have ab: "\<bar>of_nat m :: rat\<bar> = of_nat m" by simp
  have mx: "max (int e) (- 1022) = int e" by simp
  have nz: "(of_nat m :: rat) \<noteq> 0" "\<not> (of_nat m :: rat) < 0" using False by simp_all
  show ?thesis
    unfolding to_double_def Let_def ab bin mx u r
    using small nz by (simp only: if_False)
qed

lemma to_double_0 [simp]: "to_double 0 = Fin 0"
  by (simp add: to_double_def)

lemma to_double_1 [simp]: "to_double 1 = Fin 1"
  using to_double_nat [of 1] by simp

lemma to_double_numeral [simp]:
  "(numeral k :: nat) < 9007199254740992 \<Longrightarrow> to_double (numeral k) = Fin (numeral k)"
  using to_double_nat [of "numeral k"] by simp

lemma to_double_minus:
  "to_double (- q) =
     (case to_double q of NaN \<Rightarrow> NaN | Fin x \<Rightarrow> Fin (- x) | PosInf \<Rightarrow> NegInf
      | NegInf \<Rightarrow> PosInf)"
  by (cases "q = 0"; cases "q < 0") (auto simp add: to_double_def Let_def)

lemma to_double_neg_numeral [simp]:
  "(numeral k :: nat) < 9007199254740992 \<Longrightarrow> to_double (- numeral k) = Fin (- numeral k)"
  by (simp add: to_double_minus)

text \<open>Any other rational is rounded by evaluating the definition.\<close>

lemma floor_rat_numeral:
  "\<lfloor>numeral a / numeral b :: rat\<rfloor> = numeral a div numeral b"
  using floor_divide_of_int_eq [of "numeral a" "numeral b", where ?'a = rat] by simp

lemma ceiling_rat_numeral:
  "\<lceil>numeral a / numeral b :: rat\<rceil> = - (- numeral a div numeral b)"
  using floor_divide_of_int_eq [of "- numeral a" "numeral b", where ?'a = rat]
  by (simp add: ceiling_def)

lemma ilog2_values: "ilog2 (Suc 0) = 0" "ilog2 10 = 3" "ilog2 12 = 3"
  by code_simp+

lemmas double_steps =
  to_double_def binade_def pow2_def round_even_def Let_def floor_rat_numeral
  ceiling_rat_numeral ilog2_values

lemma double_12_4: "to_double (124 / 10) = Fin (6980579422424269 / 562949953421312)"
  by (simp add: double_steps)

lemma double_10_456: "to_double (10456 / 1000) = Fin (2943102356486619 / 281474976710656)"
  by (simp add: double_steps)

lemma double_0_987: "to_double (987 / 1000) = Fin (8890105664429359 / 9007199254740992)"
  by (simp add: double_steps)

text \<open>A rational of \<open>2 ^ 1024\<close> or more is rounded to infinity.\<close>

lemma round_even_floor: "\<lfloor>x\<rfloor> \<le> round_even x"
  by (simp add: round_even_def Let_def)

lemma to_double_overflow:
  assumes "2 ^ 1024 \<le> q"
  shows "to_double q = PosInf"
proof -
  define n where "n = nat \<lfloor>q\<rfloor>"
  define e where "e = ilog2 n"
  have qpos: "0 < q" "1 \<le> q"
    using assms by (auto intro: less_le_trans [of 0 "2 ^ 1024" q] order_trans [of 1 "2 ^ 1024" q])
  have "(2::int) ^ 1024 \<le> \<lfloor>q\<rfloor>"
    using assms by (simp add: le_floor_iff)
  then have big: "2 ^ 1024 \<le> n"
    by (simp add: n_def le_nat_iff)
  then have npos: "0 < n"
    by (rule less_le_trans [rotated]) simp
  have b: "2 ^ e \<le> n" "n < 2 ^ Suc e"
    using ilog2_bounds [OF npos] by (simp_all add: e_def)
  have "(2::nat) ^ 1024 < 2 ^ Suc e" using big b(2) by (rule le_less_trans)
  then have "1024 < Suc e" by (rule power_less_imp_less_exp [rotated]) simp
  then have e1024: "1024 \<le> e" by simp
  have bin: "binade q = int e"
    using qpos by (simp add: binade_def e_def n_def)
  have mx: "max (int e) (- 1022) = int e" by simp
  have u: "pow2 (int e - 52) = 2 ^ (e - 52)"
    using e1024 by (simp add: pow2_def nat_diff_distrib')
  have f1: "(2::rat) ^ e \<le> of_nat n"
    using b(1) by (metis of_nat_le_iff of_nat_numeral of_nat_power)
  have f2: "of_nat n \<le> q"
    using qpos by (simp add: n_def)
  have low: "(2::rat) ^ e \<le> q"
    using f1 f2 by (rule order_trans)
  have "52 + (e - 52) = e"
    using e1024 by simp
  then have split: "(2::rat) ^ e = 2 ^ 52 * 2 ^ (e - 52)"
    by (metis power_add)
  have "(2::rat) ^ 52 \<le> q / 2 ^ (e - 52)"
    using low by (simp add: split pos_le_divide_eq)
  then have fl: "(2::int) ^ 52 \<le> \<lfloor>q / 2 ^ (e - 52)\<rfloor>"
    by (simp add: le_floor_iff)
  have "\<lfloor>q / 2 ^ (e - 52)\<rfloor> \<le> round_even (q / 2 ^ (e - 52))"
    by (rule round_even_floor)
  with fl have "(2::int) ^ 52 \<le> round_even (q / 2 ^ (e - 52))"
    by (rule order_trans)
  then have "(2::rat) ^ 52 \<le> of_int (round_even (q / 2 ^ (e - 52)))"
    by (metis of_int_le_iff of_int_numeral of_int_power)
  then have "(2::rat) ^ 52 * 2 ^ (e - 52) \<le> of_int (round_even (q / 2 ^ (e - 52))) * 2 ^ (e - 52)"
    by (simp add: mult_right_mono)
  then have "(2::rat) ^ e \<le> of_int (round_even (q / 2 ^ (e - 52))) * 2 ^ (e - 52)"
    by (simp only: split)
  moreover have "(2::rat) ^ 1024 \<le> 2 ^ e"
    using e1024 by (intro power_increasing) simp_all
  ultimately have r: "pow2 1024 \<le> of_int (round_even (q / 2 ^ (e - 52))) * 2 ^ (e - 52)"
    by (simp add: pow2_def)
  have ab: "\<bar>q\<bar> = q" using qpos by simp
  have nz: "q \<noteq> 0" "\<not> q < 0" using qpos by simp_all
  show ?thesis
    unfolding to_double_def Let_def ab bin mx u
    using r nz by (simp only: if_True if_False)
qed

lemma dec_value_nines:
  "foldl (\<lambda>a c. 10 * a + digit_val c) a (replicate n (CHR ''9'')) + 1 = (a + 1) * 10 ^ n"
proof (induction n arbitrary: a)
  case 0
  show ?case by simp
next
  case (Suc n)
  have step: "10 * a + digit_val (CHR ''9'') = 10 * a + 9"
    by (simp add: digit_val_def)
  have "foldl (\<lambda>a c. 10 * a + digit_val c) a (replicate (Suc n) (CHR ''9'')) + 1
          = foldl (\<lambda>a c. 10 * a + digit_val c) (10 * a + 9) (replicate n (CHR ''9'')) + 1"
    by (simp only: replicate_Suc foldl_Cons step)
  also have "\<dots> = (10 * a + 9 + 1) * 10 ^ n"
    by (rule Suc.IH)
  also have "\<dots> = (a + 1) * 10 ^ Suc n"
    by (simp add: algebra_simps)
  finally show ?case .
qed

lemma parseInt_nines: "parseInt (replicate 400 (CHR ''9'')) = PosInf"
proof -
  have sp: "dropWhile is_space (replicate 400 (CHR ''9'')) = replicate 400 (CHR ''9'')"
    by (rule dropWhile_eq_self_iff [THEN iffD2]) (simp add: is_space_def)
  have r: "replicate 400 (CHR ''9'') = CHR ''9'' # replicate 399 (CHR ''9'')"
    unfolding replicate_Suc [symmetric] by simp
  have sg: "strip_sign (replicate 400 (CHR ''9'')) = (False, replicate 400 (CHR ''9''))"
    by (simp add: strip_sign_def r)
  have dg: "takeWhile is_digit (replicate 400 (CHR ''9'')) = replicate 400 (CHR ''9'')"
    by (simp add: is_digit_def)
  have "dec_value (replicate 400 (CHR ''9'')) + 1 = 10 ^ 400"
    using dec_value_nines [of 0 400] by (simp add: dec_value_def)
  then have val: "dec_value (replicate 400 (CHR ''9'')) = 10 ^ 400 - 1"
    by simp
  have "(2::rat) ^ 1024 \<le> of_nat (10 ^ 400 - 1)"
    by simp
  then have inf: "to_double (of_nat (10 ^ 400 - 1)) = PosInf"
    by (rule to_double_overflow)
  have ne: "replicate 400 (CHR ''9'') \<noteq> []"
    by simp
  show ?thesis
    unfolding parseInt_def sp Let_def sg prod.case dg val signed_def
    by (simp only: ne if_False inf)
qed

lemmas number_parsers =
  parseInt_def parseFloat_def strip_sign_def is_space_def is_digit_def dec_value_def
  digit_val_def signed_def scale10_def exponent_part_def

lemma string_of_nat_1: "string_of_nat 1 = ''1''"
  by code_simp

lemma zero_out_rtt: "js_match re_rtt zero_out = Some [''0.000'', ''0.000'', ''0.000'', ''0.000'']"
  by code_simp

lemma zero_out_loss: "js_match re_loss zero_out = Some [''0.0'']"
  by code_simp

lemma parsePingStats_zero_out:
  "parsePingStats zero_out = \<lparr> avgMs = Some (Fin 0), jitterMs = Some (Fin 0), lossPct = Some (Fin 0) \<rparr>"
  by (simp add: parsePingStats_def zero_out_rtt zero_out_loss capture_def number_parsers)

section \<open>The ping probe\<close>

lemma pingHost_keeps_statistics:
  assumes "exec ''ping'' [''-n'', ''-c'', string_of_nat n, h] [(''encoding'', OStr ''utf8'')]
             = Some settled"
    and "truthy_num (avgMs (parsePingStats (stdout (command_result settled))))
         \<or> error (command_result settled) = None"
  shows "value_of (pingHost exec h n) =
           Some \<lparr> avgMs = avgMs (parsePingStats (stdout (command_result settled))),
                  jitterMs = jitterMs (parsePingStats (stdout (command_result settled))),
                  lossPct = lossPct (parsePingStats (stdout (command_result settled))),
                  target = h, samples = n,
                  ping_error =
                    (if error (command_result settled) \<noteq> None
                     then Some (stderr (command_result settled)) else None) \<rparr>"
  using assms
  by (auto simp add: value_of_def pingHost_def runCommand_plain utf8_only_def Let_def ret_def)

text \<open>
  C2. The claim: the ping probe gives up the statistics only when the parser found no
  average latency and the process reported an error; otherwise the parsed statistics
  are kept. On the code the statistics are kept when the process reported no error or
  the average is a number other than 0 (\<open>pingHost_keeps_statistics\<close>), but the test
  \<open>!stats.avgMs\<close> takes the number 0 for a missing value. A ping whose summary reads
  0.0% loss and a round trip of 0.000/0.000/0.000/0.000 ms, from a process that
  reported an error, is parsed to three zeros, and the probe returns three nulls.
\<close>

theorem pingHost_drops_zero_average:
  "parsePingStats zero_out
     = \<lparr> avgMs = Some (Fin 0), jitterMs = Some (Fin 0), lossPct = Some (Fin 0) \<rparr>
   \<and> pingHost zero_exec ''10.0.0.1'' 1 =
       Some ([Log LInfo ''collect.ping.start''
                [(''host'', JStr ''10.0.0.1''), (''count'', JNum (Fin 1))],
              Exec ''ping'' [''-n'', ''-c'', ''1'', ''10.0.0.1''] [(''encoding'', OStr ''utf8'')],
              Log LError ''collect.ping.error''
                [(''host'', JStr ''10.0.0.1''), (''stderr'', JStr ''interrupted'')]],
             \<lparr> avgMs = None, jitterMs = None, lossPct = None, target = ''10.0.0.1'',
               samples = 1, ping_error = Some ''interrupted'' \<rparr>)"
  using string_of_nat_1
  by (simp add: pingHost_def runCommand_plain zero_exec_def command_result_def utf8_only_def
      parsePingStats_zero_out truthy_num_def or_else_def ret_def)

section \<open>The speed-test probe\<close>

lemma toMbps_measured:
  "x \<noteq> 0 \<Longrightarrow>
     toMbps co (Some (JNum (Fin x))) = Some (Math_round (to_double (x / 1000000)))"
  by (simp add: toMbps_def truthy_json_def truthy_num_def ToNumber_def num_div_def)

lemma toMbps_12400000: "Math_round (to_double (62 / 5)) = Fin 12"
  \<comment> \<open>12,400,000 / 1,000,000 in lowest terms\<close>
proof -
  have rounded: "to_double (62 / 5) = Fin (6980579422424269 / 562949953421312)"
    using double_12_4 by simp
  show ?thesis
    by (simp add: Math_round_def rounded floor_rat_numeral)
qed

lemmas speed_eval =
  runSpeedTest_def runCommand_plain command_result_def utf8_only_def toMbps_def get_prop_def
  truthy_json_def truthy_num_def ToNumber_def num_div_def toMbps_12400000 nullish_def of_num_def
  ret_def value_of_def or_else_def speed_failure_def json_const_def

text \<open>
  C6. The claim: every throughput present in the decoded output, the value 0 included,
  is divided by 1,000,000 and rounded, and a measured zero can be told from an absent
  field. On the code a non-zero throughput is converted so (\<open>toMbps_measured\<close>), but
  \<open>parsed.dl_throughput ? ... : null\<close> takes 0 for absent: the output
  \<open>{"dl_throughput": 0, "ul_throughput": 12400000}\<close> and the output without
  \<open>dl_throughput\<close> give the same result, with \<open>downloadMbps\<close> null.
\<close>

theorem runSpeedTest_zero_throughput_lost:
  "value_of (runSpeedTest (json_const (Inr zero_json)) no_coerce (ok_exec ''{}''))
     = Some (Inr \<lparr> downloadMbps = None, uploadMbps = Some (Fin 12), baseRttMs = None,
                    responsivenessMs = None, interfaceName = None, endpoint = None,
                    raw = Some \<lparr> startDate = None, endDate = None, osVersion = None \<rparr>,
                    speed_error = None \<rparr>)
   \<and> value_of (runSpeedTest (json_const (Inr absent_json)) no_coerce (ok_exec ''{}''))
     = value_of (runSpeedTest (json_const (Inr zero_json)) no_coerce (ok_exec ''{}''))"
  by (simp add: speed_eval ok_exec_def zero_json_def absent_json_def)

text \<open>
  C8, as stated: the error value of a failed process and the error value of output that
  does not decode are never the same. This fails when the failed process itself printed
  the text \<open>networkQuality output parse failed\<close> on its error stream: both runs
  return the same record.
\<close>

theorem speed_error_modes_coincide:
  "value_of (runSpeedTest (json_const (Inr zero_json)) no_coerce
       (fail_exec ''networkQuality output parse failed''))
     = Some (Inr (speed_failure ''networkQuality output parse failed''))
   \<and> value_of (runSpeedTest (json_const (Inl ''Unexpected token'')) no_coerce (ok_exec ''<html>''))
     = Some (Inr (speed_failure ''networkQuality output parse failed''))"
  by (simp add: speed_eval ok_exec_def fail_exec_def)

text \<open>
  C8, amended. When the process fails, the probe logs \<open>collect.speedtest.error\<close> and
  returns all metrics null with the error stream of the process as error, or
  \<open>networkQuality failed\<close> when that is empty. When the process succeeds and its output
  does not decode, the probe logs \<open>collect.speedtest.parse-error\<close> and returns all
  metrics null with the error \<open>networkQuality output parse failed\<close>. The two log
  events always differ; the two error values differ whenever the error stream of the
  failed process is not itself the parse-failure text.
\<close>

theorem runSpeedTest_failure_modes:
  "(exec ''networkQuality'' [''-c''] [(''encoding'', OStr ''utf8'')] = Some (ExecFail e) \<longrightarrow>
      runSpeedTest jp co exec =
        Some ([Log LInfo ''collect.speedtest.start'' [],
               Exec ''networkQuality'' [''-c''] [(''encoding'', OStr ''utf8'')],
               Log LError ''collect.speedtest.error''
                 [(''stderr'', JStr (stderr (command_result (ExecFail e))))]],
              Inr (speed_failure
                     (or_else (stderr (command_result (ExecFail e))) ''networkQuality failed''))))
   \<and> (exec ''networkQuality'' [''-c''] [(''encoding'', OStr ''utf8'')] = Some (ExecOk out err)
        \<and> jp out = Inl msg \<longrightarrow>
      runSpeedTest jp co exec =
        Some ([Log LInfo ''collect.speedtest.start'' [],
               Exec ''networkQuality'' [''-c''] [(''encoding'', OStr ''utf8'')],
               Log LError ''collect.speedtest.parse-error'' [(''error'', JStr msg)]],
              Inr (speed_failure ''networkQuality output parse failed'')))
   \<and> (stderr (command_result (ExecFail e)) \<noteq> ''networkQuality output parse failed'' \<longrightarrow>
        speed_failure (or_else (stderr (command_result (ExecFail e))) ''networkQuality failed'')
          \<noteq> speed_failure ''networkQuality output parse failed'')"
  by (simp add: runSpeedTest_def runCommand_plain utf8_only_def ret_def or_else_def
      speed_failure_def command_result_def)

text \<open>A process that fails printing \<open>timed out\<close>, and output that does not decode.\<close>

theorem runSpeedTest_failure_modes_witness:
  "runSpeedTest (json_const (Inr zero_json)) no_coerce (fail_exec ''timed out'') =
     Some ([Log LInfo ''collect.speedtest.start'' [],
            Exec ''networkQuality'' [''-c''] [(''encoding'', OStr ''utf8'')],
            Log LError ''collect.speedtest.error'' [(''stderr'', JStr ''timed out'')]],
           Inr (speed_failure ''timed out''))
   \<and> runSpeedTest (json_const (Inl ''Unexpected token'')) no_coerce (ok_exec ''<html>'') =
     Some ([Log LInfo ''collect.speedtest.start'' [],
            Exec ''networkQuality'' [''-c''] [(''encoding'', OStr ''utf8'')],
            Log LError ''collect.speedtest.parse-error'' [(''error'', JStr ''Unexpected token'')]],
           Inr (speed_failure ''networkQuality output parse failed''))
   \<and> speed_failure ''timed out'' \<noteq> speed_failure ''networkQuality output parse failed''"
  using runSpeedTest_failure_modes
          [where exec = "fail_exec ''timed out''"
             and e = "\<lparr> fail_stdout = Some [], fail_stderr = Some ''timed out'',
                        fail_message = Some ''Command failed'' \<rparr>"
             and jp = "json_const (Inr zero_json)" and co = no_coerce]
        runSpeedTest_failure_modes
          [where exec = "ok_exec ''<html>''" and out = "''<html>''" and err = "[]"
             and jp = "json_const (Inl ''Unexpected token'')" and msg = "''Unexpected token''"
             and co = no_coerce]
  by (simp add: fail_exec_def ok_exec_def json_const_def command_result_def or_else_def)


section \<open>The adapter-format parser\<close>

lemma js_split_nonempty: "js_split c s \<noteq> []"
  by (induction s) (auto split: list.splits)

lemma js_split_first: "js_split c s = p # ps \<Longrightarrow> p = takeWhile (\<lambda>x. x \<noteq> c) s"
  by (induction s arbitrary: p ps) (auto simp add: js_split_nonempty split: list.splits if_splits)

lemma parseAirportOutput_channel_token:
  "channel (parseAirportOutput s) =
     (case airport_data s ''channel'' of None \<Rightarrow> None
      | Some v \<Rightarrow> if takeWhile (\<lambda>c. c \<noteq> CHR '','') v = [] then None
                  else Some (parseInt (takeWhile (\<lambda>c. c \<noteq> CHR '','') v)))"
proof (cases "airport_data s ''channel''")
  case None
  then show ?thesis
    by (simp add: parseAirportOutput_def airport_record_def Let_def truthy_str_def
        parseIntField_def)
next
  case (Some v)
  obtain p ps where sp: "js_split (CHR '','') v = p # ps"
    using js_split_nonempty [of "CHR '',''" v] by (cases "js_split (CHR '','') v") auto
  then have p: "p = takeWhile (\<lambda>c. c \<noteq> CHR '','') v"
    by (rule js_split_first)
  show ?thesis
    using Some sp p
    by (cases v)
       (auto simp add: parseAirportOutput_def airport_record_def Let_def truthy_str_def
          parseIntField_def)
qed

lemma parseAirportOutput_band_of_channel:
  "band (parseAirportOutput s) =
     (case channel (parseAirportOutput s) of
        None \<Rightarrow> None
      | Some NaN \<Rightarrow> None
      | Some (Fin x) \<Rightarrow>
          if x = 0 then None else if 14 < x then Some ''5 GHz'' else Some ''2.4 GHz''
      | Some PosInf \<Rightarrow> Some ''5 GHz''
      | Some NegInf \<Rightarrow> Some ''2.4 GHz'')"
  by (simp add: parseAirportOutput_def airport_record_def Let_def truthy_num_def num_gt_def
      split: option.splits number.splits)

lemma airport_data_0: "airport_data ''channel: 0'' ''channel'' = Some ''0''"
  by code_simp
lemma airport_data_48: "airport_data ''channel: 48,1'' ''channel'' = Some ''48,1''"
  by code_simp
lemma airport_data_6: "airport_data ''channel: 6'' ''channel'' = Some ''6''"
  by code_simp

text \<open>A channel value of 400 nines is beyond the doubles: the channel is infinite.\<close>

lemma airport_data_nines:
  "airport_data long_channel ''channel'' = Some (replicate 400 (CHR ''9''))"
  by code_simp

lemma parseAirportOutput_long_channel:
  "channel (parseAirportOutput long_channel) = Some PosInf
   \<and> band (parseAirportOutput long_channel) = Some ''5 GHz''"
proof -
  have tw: "takeWhile (\<lambda>c. c \<noteq> CHR '','') (replicate 400 (CHR ''9''))
              = replicate 400 (CHR ''9'')"
    by simp
  have ne: "replicate 400 (CHR ''9'') \<noteq> []"
    by simp
  have c: "channel (parseAirportOutput long_channel) = Some PosInf"
    unfolding parseAirportOutput_channel_token airport_data_nines option.case tw
    by (simp only: ne if_False parseInt_nines)
  show ?thesis
    by (simp add: parseAirportOutput_band_of_channel c)
qed

text \<open>
  C4. The claim: the band is \<open>5 GHz\<close> when the channel is above 14, \<open>2.4 GHz\<close> for
  every other parsed channel, and null only when the channel is null. On the code the
  channel is the number at the head of the channel value
  (\<open>parseAirportOutput_channel_token\<close>) and the band is a function of the channel alone
  (\<open>parseAirportOutput_band_of_channel\<close>); the two examples of the specification come
  out as stated. But the test \<open>channel ? ... : null\<close> takes the number 0 for a missing
  channel: the line \<open>channel: 0\<close> is parsed to the channel 0, which is not null and not
  above 14, and the band is null.
\<close>

theorem parseAirportOutput_zero_channel_no_band:
  "channel (parseAirportOutput ''channel: 0'') = Some (Fin 0)
   \<and> band (parseAirportOutput ''channel: 0'') = None
   \<and> channel (parseAirportOutput ''channel: 48,1'') = Some (Fin 48)
   \<and> band (parseAirportOutput ''channel: 48,1'') = Some ''5 GHz''
   \<and> channel (parseAirportOutput ''channel: 6'') = Some (Fin 6)
   \<and> band (parseAirportOutput ''channel: 6'') = Some ''2.4 GHz''"
proof -
  have c0: "channel (parseAirportOutput ''channel: 0'') = Some (Fin 0)"
    by (simp add: parseAirportOutput_channel_token airport_data_0 number_parsers)
  have c48: "channel (parseAirportOutput ''channel: 48,1'') = Some (Fin 48)"
    by (simp add: parseAirportOutput_channel_token airport_data_48 number_parsers)
  have c6: "channel (parseAirportOutput ''channel: 6'') = Some (Fin 6)"
    by (simp add: parseAirportOutput_channel_token airport_data_6 number_parsers)
  show ?thesis
    by (simp add: parseAirportOutput_band_of_channel c0 c48 c6)
qed

section \<open>The Wi-Fi probe\<close>

lemma airport_not_profiler [simp]: "AIRPORT_PATH \<noteq> ''system_profiler''"
  by (simp add: AIRPORT_PATH_def)

lemma getAirportInfo_cases:
  "getAirportInfo access exec =
     (let start = [Log LInfo ''collect.airport.start'' [(''command'', JStr AIRPORT_PATH)],
                   Access AIRPORT_PATH];
          fallback = (\<lambda>pre.
            case exec ''system_profiler'' [''SPAirPortDataType'', ''-detailLevel'', ''basic'']
                   utf8_only of
              None \<Rightarrow> None
            | Some settled \<Rightarrow>
                Some (pre @ [Log LInfo ''collect.system-profiler.start'' [],
                        Exec ''system_profiler'' [''SPAirPortDataType'', ''-detailLevel'', ''basic'']
                          utf8_only]
                      @ (if error (command_result settled) \<noteq> None
                         then [Log LError ''collect.system-profiler.error''
                                 [(''stderr'', JStr (stderr (command_result settled)))]]
                         else [Log LSuccess ''collect.system-profiler.success''
                                 [(''ssid'', of_str (ssid (parseSystemProfilerOutput
                                     (stdout (command_result settled)))))]]),
                      if error (command_result settled) \<noteq> None then None
                      else Some (parseSystemProfilerOutput (stdout (command_result settled)))))
      in case access AIRPORT_PATH of
           Some message \<Rightarrow>
             fallback (start @ [Log LError ''collect.airport.missing'' [(''error'', JStr message)]])
         | None \<Rightarrow>
             (case exec AIRPORT_PATH [''-I''] utf8_only of
                None \<Rightarrow> None
              | Some settled \<Rightarrow>
                  if error (command_result settled) = None then
                    Some (start @ [Exec AIRPORT_PATH [''-I''] utf8_only,
                            Log LSuccess ''collect.airport.success''
                              [(''ssid'', of_str (ssid (parseAirportOutput
                                  (stdout (command_result settled)))))]],
                          Some (parseAirportOutput (stdout (command_result settled))))
                  else
                    fallback (start @ [Exec AIRPORT_PATH [''-I''] utf8_only,
                                Log LError ''collect.airport.error''
                                  [(''stderr'', JStr (stderr (command_result settled)))]])))"
  by (simp add: getAirportInfo_def runCommand_plain Let_def ret_def
      split: option.splits)

lemma command_result_error:
  "error (command_result settled) = None \<longleftrightarrow> (\<nexists>e. settled = ExecFail e)"
  by (cases settled) (simp_all add: command_result_def)

lemma command_result_ok:
  "stdout (command_result (ExecOk out err)) = out"
  "stderr (command_result (ExecOk out err)) = err"
  by (simp_all add: command_result_def)

text \<open>
  C3. Whenever the Wi-Fi probe returns: the primary tool is invoked exactly when \<open>access\<close>
  finds its path; the fallback tool is invoked exactly when the path is absent or the
  primary invocation failed; the result is null exactly when, in addition, the fallback
  invocation failed; and the output of the source that succeeded goes through its own
  parser.
\<close>

theorem getAirportInfo_fallback_chain:
  assumes "getAirportInfo access exec = Some (t, r)"
  shows "(Exec AIRPORT_PATH [''-I''] [(''encoding'', OStr ''utf8'')] \<in> set t
            \<longleftrightarrow> access AIRPORT_PATH = None)
     \<and> (Exec ''system_profiler'' [''SPAirPortDataType'', ''-detailLevel'', ''basic'']
             [(''encoding'', OStr ''utf8'')] \<in> set t
            \<longleftrightarrow> access AIRPORT_PATH \<noteq> None
                \<or> (\<exists>e. exec AIRPORT_PATH [''-I''] [(''encoding'', OStr ''utf8'')]
                           = Some (ExecFail e)))
     \<and> (r = None
            \<longleftrightarrow> (access AIRPORT_PATH \<noteq> None
                 \<or> (\<exists>e. exec AIRPORT_PATH [''-I''] [(''encoding'', OStr ''utf8'')]
                            = Some (ExecFail e)))
                \<and> (\<exists>e. exec ''system_profiler'' [''SPAirPortDataType'', ''-detailLevel'', ''basic'']
                           [(''encoding'', OStr ''utf8'')] = Some (ExecFail e)))
     \<and> (\<forall>out err. access AIRPORT_PATH = None
            \<and> exec AIRPORT_PATH [''-I''] [(''encoding'', OStr ''utf8'')] = Some (ExecOk out err)
            \<longrightarrow> r = Some (parseAirportOutput out))
     \<and> (\<forall>out err. (access AIRPORT_PATH \<noteq> None
                 \<or> (\<exists>e. exec AIRPORT_PATH [''-I''] [(''encoding'', OStr ''utf8'')]
                            = Some (ExecFail e)))
            \<and> exec ''system_profiler'' [''SPAirPortDataType'', ''-detailLevel'', ''basic'']
                 [(''encoding'', OStr ''utf8'')] = Some (ExecOk out err)
            \<longrightarrow> r = Some (parseSystemProfilerOutput out))"
  using assms
  by (auto simp add: getAirportInfo_cases utf8_only_def Let_def command_result_error
      command_result_ok split: option.splits if_splits)


lemma profiler_sample_matches:
  "js_match re_ssid profiler_sample = Some [''MyHome'']"
  "js_match re_signal profiler_sample = Some [''-51'', ''-91'']"
  "js_match re_channel profiler_sample = Some [''48'', ''5GHz, 80MHz'']"
  "js_match re_transmit profiler_sample = Some [''960'']"
  "js_match re_band ''5GHz, 80MHz'' = Some [''5'']"
  "js_trim ''MyHome'' = ''MyHome''"
  by code_simp+

lemma parseSystemProfilerOutput_sample:
  "parseSystemProfilerOutput profiler_sample =
     \<lparr> ssid = Some ''MyHome'', bssid = None, signalDbm = Some (Fin (- 51)),
       noiseDbm = Some (Fin (- 91)), channel = Some (Fin 48), band = Some ''5 GHz'',
       linkRateMbps = Some (Fin 960) \<rparr>"
  by (simp add: parseSystemProfilerOutput_def profiler_sample_matches capture_def number_parsers)

text \<open>The path is absent and the fallback succeeds: the record is the fallback parser's.\<close>

theorem getAirportInfo_fallback_chain_witness:
  "getAirportInfo missing (ok_exec profiler_sample) =
     Some ([Log LInfo ''collect.airport.start'' [(''command'', JStr AIRPORT_PATH)],
            Access AIRPORT_PATH,
            Log LError ''collect.airport.missing''
              [(''error'', JStr ''ENOENT: no such file or directory'')],
            Log LInfo ''collect.system-profiler.start'' [],
            Exec ''system_profiler'' [''SPAirPortDataType'', ''-detailLevel'', ''basic'']
              [(''encoding'', OStr ''utf8'')],
            Log LSuccess ''collect.system-profiler.success'' [(''ssid'', JStr ''MyHome'')]],
           Some \<lparr> ssid = Some ''MyHome'', bssid = None, signalDbm = Some (Fin (- 51)),
                  noiseDbm = Some (Fin (- 91)), channel = Some (Fin 48), band = Some ''5 GHz'',
                  linkRateMbps = Some (Fin 960) \<rparr>)
   \<and> Some \<lparr> ssid = Some ''MyHome'', bssid = None, signalDbm = Some (Fin (- 51)),
              noiseDbm = Some (Fin (- 91)), channel = Some (Fin 48), band = Some ''5 GHz'',
              linkRateMbps = Some (Fin 960) \<rparr>
       = Some (parseSystemProfilerOutput profiler_sample)"
proof -
  have run: "getAirportInfo missing (ok_exec profiler_sample) =
     Some ([Log LInfo ''collect.airport.start'' [(''command'', JStr AIRPORT_PATH)],
            Access AIRPORT_PATH,
            Log LError ''collect.airport.missing''
              [(''error'', JStr ''ENOENT: no such file or directory'')],
            Log LInfo ''collect.system-profiler.start'' [],
            Exec ''system_profiler'' [''SPAirPortDataType'', ''-detailLevel'', ''basic'']
              [(''encoding'', OStr ''utf8'')],
            Log LSuccess ''collect.system-profiler.success'' [(''ssid'', JStr ''MyHome'')]],
           Some \<lparr> ssid = Some ''MyHome'', bssid = None, signalDbm = Some (Fin (- 51)),
                  noiseDbm = Some (Fin (- 91)), channel = Some (Fin 48), band = Some ''5 GHz'',
                  linkRateMbps = Some (Fin 960) \<rparr>)"
    by (simp add: getAirportInfo_cases missing_def ok_exec_def utf8_only_def command_result_def
        parseSystemProfilerOutput_sample of_str_def)
  show ?thesis
    using run getAirportInfo_fallback_chain [OF run]
    by (simp add: missing_def ok_exec_def)
qed

section \<open>Timeouts\<close>

lemma runCommand_settles:
  "runCommand exec c a opts = None
     \<longleftrightarrow> exec c a (spread [(''encoding'', OStr ''utf8'')] opts) = None"
  by (simp add: runCommand_def Let_def ret_def split: option.splits)

lemma runCommand_rejected:
  "exec c a (spread [(''encoding'', OStr ''utf8'')] opts) = Some (ExecFail e) \<Longrightarrow>
     \<exists>t r. runCommand exec c a opts = Some (t, r) \<and> error r = Some e"
  by (simp add: runCommand_def Let_def ret_def command_result_def)

lemma pingHost_settles:
  "pingHost exec h n = None
     \<longleftrightarrow> exec ''ping'' [''-n'', ''-c'', string_of_nat n, h] [(''encoding'', OStr ''utf8'')] = None"
  by (cases "exec ''ping'' [''-n'', ''-c'', string_of_nat n, h] [(''encoding'', OStr ''utf8'')]")
     (simp_all add: pingHost_def runCommand_plain utf8_only_def Let_def ret_def)

lemma dnsLookup_settles:
  "dnsLookup exec h srv = None
     \<longleftrightarrow> exec ''dig''
           ([''+stats'', ''+tries=1'', ''+time=2'', h]
            @ (case srv of None \<Rightarrow> [] | Some s \<Rightarrow> if s = [] then [] else [''@'' @ s]))
           [(''encoding'', OStr ''utf8'')] = None"
proof (cases srv)
  case None
  then show ?thesis
    by (cases "exec ''dig'' [''+stats'', ''+tries=1'', ''+time=2'', h]
                 [(''encoding'', OStr ''utf8'')]")
       (simp_all add: dnsLookup_def runCommand_plain utf8_only_def Let_def ret_def truthy_str_def)
next
  case (Some s)
  show ?thesis
  proof (cases "s = []")
    case True
    with Some show ?thesis
      by (cases "exec ''dig'' [''+stats'', ''+tries=1'', ''+time=2'', h]
                   [(''encoding'', OStr ''utf8'')]")
         (simp_all add: dnsLookup_def runCommand_plain utf8_only_def Let_def ret_def
            truthy_str_def)
  next
    case False
    with Some show ?thesis
      by (cases "exec ''dig'' [''+stats'', ''+tries=1'', ''+time=2'', h, ''@'' @ s]
                   [(''encoding'', OStr ''utf8'')]")
         (simp_all add: dnsLookup_def runCommand_plain utf8_only_def Let_def ret_def
            truthy_str_def)
  qed
qed

lemma getDefaultGateway_settles:
  "getDefaultGateway exec = None
     \<longleftrightarrow> exec ''route'' [''-n'', ''get'', ''default''] [(''encoding'', OStr ''utf8'')] = None"
  by (cases "exec ''route'' [''-n'', ''get'', ''default''] [(''encoding'', OStr ''utf8'')]")
     (simp_all add: getDefaultGateway_def runCommand_plain utf8_only_def Let_def ret_def)

lemma getDnsServer_settles:
  "getDnsServer exec = None
     \<longleftrightarrow> exec ''scutil'' [''--dns''] [(''encoding'', OStr ''utf8'')] = None"
  by (cases "exec ''scutil'' [''--dns''] [(''encoding'', OStr ''utf8'')]")
     (simp_all add: getDnsServer_def runCommand_plain utf8_only_def Let_def ret_def)

lemma runSpeedTest_settles:
  "runSpeedTest jp co exec = None
     \<longleftrightarrow> exec ''networkQuality'' [''-c''] [(''encoding'', OStr ''utf8'')] = None"
  by (cases "exec ''networkQuality'' [''-c''] [(''encoding'', OStr ''utf8'')]")
     (simp_all add: runSpeedTest_def runCommand_plain utf8_only_def Let_def ret_def
        split: sum.splits jsonval.splits)

lemma getAirportInfo_settles:
  "getAirportInfo access exec = None
     \<longleftrightarrow> (access AIRPORT_PATH = None
          \<and> exec AIRPORT_PATH [''-I''] [(''encoding'', OStr ''utf8'')] = None)
        \<or> ((access AIRPORT_PATH \<noteq> None
             \<or> (\<exists>e. exec AIRPORT_PATH [''-I''] [(''encoding'', OStr ''utf8'')]
                        = Some (ExecFail e)))
            \<and> exec ''system_profiler'' [''SPAirPortDataType'', ''-detailLevel'', ''basic'']
                 [(''encoding'', OStr ''utf8'')] = None)"
  by (auto simp add: getAirportInfo_cases utf8_only_def Let_def command_result_error
      split: option.splits if_splits)

text \<open>
  C7, as stated: every invocation made by a probe is bounded by a per-call timeout. The
  runner passes a \<open>timeout\<close> option on when it is given one, but \<open>pingHost\<close> gives
  none: on a process that never exits, under an executor that enforces timeouts, the
  probe never returns, while the same command run with a timeout gives an error outcome.
\<close>

theorem pingHost_never_returns:
  "pingHost stalled_exec ''1.1.1.1'' 12 = None
   \<and> runCommand stalled_exec ''ping'' [''-n'', ''-c'', ''12'', ''1.1.1.1''] [(''timeout'', ONum 5000)]
       = Some ([Exec ''ping'' [''-n'', ''-c'', ''12'', ''1.1.1.1'']
                  [(''encoding'', OStr ''utf8''), (''timeout'', ONum 5000)]],
               \<lparr> stdout = [], stderr = [],
                 error = Some \<lparr> fail_stdout = Some [], fail_stderr = Some [],
                                 fail_message = Some ''Command failed: timed out'' \<rparr> \<rparr>)"
  by (simp add: pingHost_settles stalled_exec_def runCommand_def spread_def ret_def
      command_result_def)


text \<open>
  C7, amended. The runner hands the caller's options (a timeout among them, if given) to
  the executor; it returns exactly when the executor settles, and a rejection, which is
  how a timeout ends, becomes an error outcome. No probe gives an option: each probe
  invokes its command with the encoding option alone and returns exactly when that
  invocation settles. What bounds a probe is the command itself, as the sample count of
  \<open>ping\<close> and the arguments \<open>+tries=1 +time=2\<close> of \<open>dig\<close>.
\<close>

theorem probes_pass_no_timeout:
  "(runCommand exec c a opts = None
      \<longleftrightarrow> exec c a (spread [(''encoding'', OStr ''utf8'')] opts) = None)
   \<and> (exec c a (spread [(''encoding'', OStr ''utf8'')] opts) = Some (ExecFail e)
      \<longrightarrow> (\<exists>t r. runCommand exec c a opts = Some (t, r) \<and> error r = Some e))
   \<and> (pingHost exec h n = None
      \<longleftrightarrow> exec ''ping'' [''-n'', ''-c'', string_of_nat n, h] [(''encoding'', OStr ''utf8'')]
            = None)
   \<and> (dnsLookup exec h srv = None
      \<longleftrightarrow> exec ''dig''
            ([''+stats'', ''+tries=1'', ''+time=2'', h]
             @ (case srv of None \<Rightarrow> [] | Some s \<Rightarrow> if s = [] then [] else [''@'' @ s]))
            [(''encoding'', OStr ''utf8'')] = None)
   \<and> (getDefaultGateway exec = None
      \<longleftrightarrow> exec ''route'' [''-n'', ''get'', ''default''] [(''encoding'', OStr ''utf8'')] = None)
   \<and> (getDnsServer exec = None
      \<longleftrightarrow> exec ''scutil'' [''--dns''] [(''encoding'', OStr ''utf8'')] = None)
   \<and> (runSpeedTest jp co exec = None
      \<longleftrightarrow> exec ''networkQuality'' [''-c''] [(''encoding'', OStr ''utf8'')] = None)
   \<and> (getAirportInfo access exec = None
      \<longleftrightarrow> (access AIRPORT_PATH = None
           \<and> exec AIRPORT_PATH [''-I''] [(''encoding'', OStr ''utf8'')] = None)
         \<or> ((access AIRPORT_PATH \<noteq> None
              \<or> (\<exists>e. exec AIRPORT_PATH [''-I''] [(''encoding'', OStr ''utf8'')]
                         = Some (ExecFail e)))
             \<and> exec ''system_profiler'' [''SPAirPortDataType'', ''-detailLevel'', ''basic'']
                  [(''encoding'', OStr ''utf8'')] = None))"
  using runCommand_settles [of exec c a opts] runCommand_rejected [of exec c a opts e]
    pingHost_settles [of exec h n] dnsLookup_settles [of exec h srv]
    getDefaultGateway_settles [of exec] getDnsServer_settles [of exec]
    runSpeedTest_settles [of jp co exec] getAirportInfo_settles [of access exec]
  by (intro conjI impI) assumption+

text \<open>
  A command run with a timeout that expires gives an error outcome; the DNS lookup on a
  process that never exits does not return; a probe on a process that exits returns.
\<close>

theorem probes_pass_no_timeout_witness:
  "runCommand (fail_exec ''timed out'') ''dig'' [''example.com''] [(''timeout'', ONum 5000)]
     = Some ([Exec ''dig'' [''example.com'']
                [(''encoding'', OStr ''utf8''), (''timeout'', ONum 5000)]],
             \<lparr> stdout = [], stderr = ''timed out'',
               error = Some \<lparr> fail_stdout = Some [], fail_stderr = Some ''timed out'',
                               fail_message = Some ''Command failed'' \<rparr> \<rparr>)
   \<and> dnsLookup stalled_exec ''example.com'' None = None
   \<and> getDnsServer (ok_exec []) \<noteq> None"
  using probes_pass_no_timeout
          [where exec = "fail_exec ''timed out''" and c = "''dig''" and a = "[''example.com'']"
             and opts = "[(''timeout'', ONum 5000)]"
             and e = "\<lparr> fail_stdout = Some [], fail_stderr = Some ''timed out'',
                        fail_message = Some ''Command failed'' \<rparr>"]
        probes_pass_no_timeout [where exec = stalled_exec and h = "''example.com''" and srv = None]
        probes_pass_no_timeout [where exec = "ok_exec []"]
  by (simp add: fail_exec_def stalled_exec_def ok_exec_def spread_def runCommand_def ret_def
      command_result_def)

section \<open>The aggregator\<close>

lemma home_matches:
  "js_match re_gateway ''gateway: 10.0.0.1'' = Some [''10.0.0.1'']"
  "js_match re_nameserver ''nameserver[0] : 10.0.0.1'' = Some [''10.0.0.1'']"
  "js_match re_query ''Query time: 5 msec'' = Some [''5'']"
  "js_match re_loss [] = None"
  "js_match re_rtt [] = None"
  "js_trim ''10.0.0.1'' = ''10.0.0.1''"
  by code_simp+

lemma home_wifi:
  "value_of (getAirportInfo missing home_exec) =
     Some (Some \<lparr> ssid = Some ''MyHome'', bssid = None, signalDbm = Some (Fin (- 51)),
                   noiseDbm = Some (Fin (- 91)), channel = Some (Fin 48),
                   band = Some ''5 GHz'', linkRateMbps = Some (Fin 960) \<rparr>)"
  by (simp add: value_of_def getAirportInfo_cases missing_def home_exec_def utf8_only_def
      command_result_def parseSystemProfilerOutput_sample)

lemma home_gateway: "value_of (getDefaultGateway home_exec) = Some (Some ''10.0.0.1'')"
  by (simp add: value_of_def getDefaultGateway_def runCommand_plain home_exec_def
      command_result_def home_matches capture_def truthy_str_def ret_def Let_def)

lemma home_dns: "value_of (getDnsServer home_exec) = Some (Some ''10.0.0.1'')"
  by (simp add: value_of_def getDnsServer_def runCommand_plain home_exec_def
      command_result_def home_matches capture_def truthy_str_def ret_def Let_def)

lemma home_ping: "value_of (pingHost home_exec h 1) = Some (silent_ping h)"
  by (simp add: value_of_def pingHost_def runCommand_plain home_exec_def command_result_def
      parsePingStats_def home_matches truthy_num_def ret_def silent_ping_def Let_def)

lemma home_lookup:
  "value_of (dnsLookup home_exec ''cloudflare.com'' (Some ''10.0.0.1'')) =
     Some \<lparr> host = ''cloudflare.com'', server = Some ''10.0.0.1'', lookupMs = Some (Fin 5),
            dns_error = None \<rparr>"
  by (simp add: value_of_def dnsLookup_def runCommand_plain home_exec_def command_result_def
      home_matches capture_def truthy_str_def ret_def number_parsers Let_def)

lemma collect_home:
  "collect ''2026-01-25T14:25:00.000Z'' missing home_exec (json_const (Inl [])) no_coerce
     home_options = Done (home_report, False)"
  using home_ping [of "''10.0.0.1''"] home_ping [of "''1.1.1.1''"]
  by (simp add: collect_def home_wifi home_gateway home_dns home_lookup home_options_def
      home_report_def truthy_str_def hadError_def silent_ping_def)

lemma getDnsServer_nonempty: "getDnsServer exec = Some (t, Some d) \<Longrightarrow> d \<noteq> []"
  by (cases "exec ''scutil'' [''--dns''] utf8_only")
     (auto simp add: getDnsServer_def runCommand_plain Let_def ret_def truthy_str_def
        split: if_splits)

lemma getDefaultGateway_nonempty: "getDefaultGateway exec = Some (t, Some d) \<Longrightarrow> d \<noteq> []"
  by (cases "exec ''route'' [''-n'', ''get'', ''default''] utf8_only")
     (auto simp add: getDefaultGateway_def runCommand_plain Let_def ret_def truthy_str_def
        split: if_splits)

lemma runSpeedTest_error_nonempty:
  "runSpeedTest jp co exec = Some (t, Inr r) \<Longrightarrow> speed_error r \<noteq> Some []"
  by (cases "exec ''networkQuality'' [''-c''] utf8_only")
     (auto simp add: runSpeedTest_def runCommand_plain Let_def ret_def speed_failure_def
        or_else_def split: if_splits sum.splits jsonval.splits)

lemma collect_Done:
  assumes "collect now access exec jp co options = Done (out, he)"
  shows "he = hadError (wifi out) (router_gateway out) (dns_server out) (router_ping out)
                (internet_ping out) (dns_lookup out) (meta_speedtest out) (speedtest out)"
    and "dns_server out \<noteq> Some []"
    and "router_ping out = None \<longleftrightarrow> \<not> truthy_str (router_gateway out)"
    and "internet_ping out \<noteq> None"
    and "dns_lookup out \<noteq> None"
    and "dns_source out =
           (if truthy_str (dns_server out) \<and> truthy_str (router_gateway out)
               \<and> dns_server out = router_gateway out
            then Router else System)"
    and "\<not> meta_speedtest out \<longrightarrow> speedtest out = None"
    and "\<forall>r. speedtest out = Some r \<longrightarrow> speed_error r \<noteq> Some []"
proof -
  obtain wifi_v where w: "value_of (getAirportInfo access exec) = Some wifi_v"
    using assms by (cases "value_of (getAirportInfo access exec)") (simp_all add: collect_def)
  obtain gateway where g:
    "(case routerHost options of Some h \<Rightarrow> Some (Some h)
      | None \<Rightarrow> value_of (getDefaultGateway exec)) = Some gateway"
    using assms w
    by (cases "(case routerHost options of Some h \<Rightarrow> Some (Some h)
                | None \<Rightarrow> value_of (getDefaultGateway exec))") (simp_all add: collect_def)
  obtain dnsServer where d: "value_of (getDnsServer exec) = Some dnsServer"
    using assms w g by (cases "value_of (getDnsServer exec)") (simp_all add: collect_def)
  have dne: "dnsServer \<noteq> Some []"
    using d getDnsServer_nonempty [of exec]
    by (auto simp add: value_of_def)
  define p1 where "p1 =
    (if truthy_str gateway
     then (case gateway of None \<Rightarrow> Some None
           | Some g \<Rightarrow> map_option Some (value_of (pingHost exec g (opt_samples options))))
     else Some None)"
  define p2 where "p2 = value_of (pingHost exec (internetHost options) (opt_samples options))"
  define p3 where "p3 = value_of (dnsLookup exec (dnsHost options) dnsServer)"
  define p4 where "p4 =
    (if opt_speedtest options
     then map_option (map_sum id Some) (value_of (runSpeedTest jp co exec))
     else Some (Inr None))"
  define report where "report = (\<lambda>routerPing internetPing dnsResult speed.
    (\<lparr> timestamp = now,
       wifi = wifi_v,
       router_gateway = gateway,
       router_ping = routerPing,
       internet_target = internetHost options,
       internet_ping = Some internetPing,
       dns_server = dnsServer,
       dns_source =
         (if truthy_str dnsServer \<and> truthy_str gateway \<and> dnsServer = gateway
          then Router else System),
       dns_lookup = Some dnsResult,
       speedtest = speed,
       meta_samples = opt_samples options,
       meta_dnsHost = dnsHost options,
       meta_speedtest = opt_speedtest options \<rparr>,
     hadError wifi_v gateway dnsServer routerPing (Some internetPing) (Some dnsResult)
       (opt_speedtest options) speed))"
  have e: "(case p4 of Some (Inl e) \<Rightarrow> Crash e
            | _ \<Rightarrow>
              (case (p1, p2, p3, p4) of
                 (Some routerPing, Some internetPing, Some dnsResult, Some (Inr speed)) \<Rightarrow>
                   Done (report routerPing internetPing dnsResult speed)
               | _ \<Rightarrow> Hang)) = Done (out, he)"
    using assms
    unfolding collect_def Let_def p1_def p2_def p3_def p4_def report_def w g d option.case
    by assumption
  obtain rp ip dr sp where ps: "p1 = Some rp" "p2 = Some ip" "p3 = Some dr" "p4 = Some (Inr sp)"
    and r: "report rp ip dr sp = (out, he)"
    using e by (auto split: option.splits sum.splits)
  have rp: "rp = None \<longleftrightarrow> \<not> truthy_str gateway"
    using ps(1) by (auto simp add: p1_def truthy_str_def split: if_splits option.splits)
  have sp: "\<not> opt_speedtest options \<longrightarrow> sp = None"
    using ps(4) by (auto simp add: p4_def)
  have se: "\<forall>r. sp = Some r \<longrightarrow> speed_error r \<noteq> Some []"
  proof (intro allI impI)
    fix r
    assume "sp = Some r"
    with ps(4) obtain v where v: "value_of (runSpeedTest jp co exec) = Some v"
      and m: "map_sum id Some v = Inr (Some r)"
      by (cases "opt_speedtest options"; cases "value_of (runSpeedTest jp co exec)")
         (auto simp add: p4_def)
    from m have "v = Inr r" by (cases v) simp_all
    with v have "value_of (runSpeedTest jp co exec) = Some (Inr r)" by simp
    then obtain t where "runSpeedTest jp co exec = Some (t, Inr r)"
      by (auto simp add: value_of_def)
    then show "speed_error r \<noteq> Some []" by (rule runSpeedTest_error_nonempty)
  qed
  have spo: "speedtest out = sp"
    using r by (auto simp add: report_def)
  have all: "he = hadError (wifi out) (router_gateway out) (dns_server out) (router_ping out)
                (internet_ping out) (dns_lookup out) (meta_speedtest out) (speedtest out)
    \<and> dns_server out = dnsServer
    \<and> (router_ping out = None \<longleftrightarrow> \<not> truthy_str (router_gateway out))
    \<and> internet_ping out \<noteq> None
    \<and> dns_lookup out \<noteq> None
    \<and> dns_source out =
           (if truthy_str (dns_server out) \<and> truthy_str (router_gateway out)
               \<and> dns_server out = router_gateway out
            then Router else System)
    \<and> (\<not> meta_speedtest out \<longrightarrow> speedtest out = None)"
    using r rp sp by (auto simp add: report_def)
  show "he = hadError (wifi out) (router_gateway out) (dns_server out) (router_ping out)
                (internet_ping out) (dns_lookup out) (meta_speedtest out) (speedtest out)"
    and "dns_server out \<noteq> Some []"
    and "router_ping out = None \<longleftrightarrow> \<not> truthy_str (router_gateway out)"
    and "internet_ping out \<noteq> None"
    and "dns_lookup out \<noteq> None"
    and "dns_source out =
           (if truthy_str (dns_server out) \<and> truthy_str (router_gateway out)
               \<and> dns_server out = router_gateway out
            then Router else System)"
    and "\<not> meta_speedtest out \<longrightarrow> speedtest out = None"
    and "\<forall>r. speedtest out = Some r \<longrightarrow> speed_error r \<noteq> Some []"
    using all dne se spo by simp_all
qed

text \<open>
  C10. In every report that \<open>collect\<close> produces, the DNS source is \<open>Router\<close> exactly
  when the DNS server and the gateway are both present and are the same text, and
  \<open>System\<close> otherwise. (The DNS server of a report is never the empty text, whose
  falsiness would otherwise make two equal empty addresses \<open>System\<close>.)
\<close>

theorem dns_source_router_iff:
  assumes "collect now access exec jp co options = Done (out, he)"
  shows "(dns_source out = Router
            \<longleftrightarrow> (\<exists>a. dns_server out = Some a \<and> router_gateway out = Some a))
       \<and> (dns_source out = System
            \<longleftrightarrow> \<not> (\<exists>a. dns_server out = Some a \<and> router_gateway out = Some a))"
  using collect_Done(2,6) [OF assms]
  by (cases "dns_server out") (auto simp add: truthy_str_def)

text \<open>A run in which the gateway is also the DNS server.\<close>

theorem dns_source_router_iff_witness:
  "dns_source home_report = Router
   \<and> dns_server home_report = Some ''10.0.0.1''
   \<and> router_gateway home_report = Some ''10.0.0.1''"
  using dns_source_router_iff [OF collect_home]
  by (simp add: home_report_def)

lemma flag_logic:
  "(if S then True else if A \<or> B \<or> C then True else W \<or> (G1 \<or> G2) \<or> D \<or> R \<or> I \<or> L)
     = (W \<or> G1 \<or> G2 \<or> D \<or> R \<or> I \<or> L \<or> A \<or> B \<or> C \<or> S)"
  by auto

lemma hadError_truthiness:
  assumes "collect now access exec jp co options = Done (out, he)"
  shows "he \<longleftrightarrow>
           wifi out = None
         \<or> router_gateway out = None \<or> router_gateway out = Some []
         \<or> dns_server out = None
         \<or> router_ping out = None
         \<or> internet_ping out = None
         \<or> dns_lookup out = None
         \<or> (\<exists>p e. router_ping out = Some p \<and> ping_error p = Some e \<and> e \<noteq> [])
         \<or> (\<exists>p e. internet_ping out = Some p \<and> ping_error p = Some e \<and> e \<noteq> [])
         \<or> (\<exists>d e. dns_lookup out = Some d \<and> dns_error d = Some e \<and> e \<noteq> [])
         \<or> (meta_speedtest out
             \<and> (\<exists>r e. speedtest out = Some r \<and> speed_error r = Some e \<and> e \<noteq> []))"
proof -
  have t: "\<And>v. truthy_str v \<longleftrightarrow> (\<exists>e. v = Some e \<and> e \<noteq> [])"
    by (simp add: truthy_str_def split: option.splits)
  have b1: "\<And>(x :: PingResult option). truthy_str (Option.bind x ping_error)
              \<longleftrightarrow> (\<exists>p e. x = Some p \<and> ping_error p = Some e \<and> e \<noteq> [])"
    by (case_tac x) (simp_all add: t)
  have b2: "truthy_str (Option.bind (dns_lookup out) dns_error)
              \<longleftrightarrow> (\<exists>d e. dns_lookup out = Some d \<and> dns_error d = Some e \<and> e \<noteq> [])"
    by (cases "dns_lookup out") (simp_all add: t)
  have b3: "truthy_str (Option.bind (speedtest out) speed_error)
              \<longleftrightarrow> (\<exists>r e. speedtest out = Some r \<and> speed_error r = Some e \<and> e \<noteq> [])"
    by (cases "speedtest out") (simp_all add: t)
  have g: "\<not> truthy_str (router_gateway out)
             \<longleftrightarrow> router_gateway out = None \<or> router_gateway out = Some []"
    by (cases "router_gateway out") (simp_all add: truthy_str_def)
  have d: "\<not> truthy_str (dns_server out) \<longleftrightarrow> dns_server out = None"
    using collect_Done(2) [OF assms]
    by (cases "dns_server out") (simp_all add: truthy_str_def)
  show ?thesis
    unfolding collect_Done(1) [OF assms] hadError_def Let_def b1 b2 b3 g d
    by (rule flag_logic)
qed

text \<open>
  C1, amended. In every report that \<open>collect\<close> produces and in which no error field is
  the empty text, the error flag is true exactly when the Wi-Fi record, the gateway, the
  DNS server or one of the three mandatory probe results is null, or the router ping,
  the internet ping or the DNS lookup carries an error, or the speed test was requested
  and carries an error. Whether the numeric fields of a result are all null plays no
  part.
\<close>

theorem hadError_flag:
  assumes "collect now access exec jp co options = Done (out, he)"
    and "Option.bind (router_ping out) ping_error \<noteq> Some []"
    and "Option.bind (internet_ping out) ping_error \<noteq> Some []"
    and "Option.bind (dns_lookup out) dns_error \<noteq> Some []"
  shows "he \<longleftrightarrow>
           wifi out = None
         \<or> router_gateway out = None
         \<or> dns_server out = None
         \<or> router_ping out = None
         \<or> internet_ping out = None
         \<or> dns_lookup out = None
         \<or> (\<exists>p. router_ping out = Some p \<and> ping_error p \<noteq> None)
         \<or> (\<exists>p. internet_ping out = Some p \<and> ping_error p \<noteq> None)
         \<or> (\<exists>d. dns_lookup out = Some d \<and> dns_error d \<noteq> None)
         \<or> (meta_speedtest out \<and> (\<exists>r. speedtest out = Some r \<and> speed_error r \<noteq> None))"
proof -
  have e1: "(\<exists>p e. router_ping out = Some p \<and> ping_error p = Some e \<and> e \<noteq> [])
              \<longleftrightarrow> (\<exists>p. router_ping out = Some p \<and> ping_error p \<noteq> None)"
    using assms(2) by (cases "router_ping out") auto
  have e2: "(\<exists>p e. internet_ping out = Some p \<and> ping_error p = Some e \<and> e \<noteq> [])
              \<longleftrightarrow> (\<exists>p. internet_ping out = Some p \<and> ping_error p \<noteq> None)"
    using assms(3) by (cases "internet_ping out") auto
  have e3: "(\<exists>d e. dns_lookup out = Some d \<and> dns_error d = Some e \<and> e \<noteq> [])
              \<longleftrightarrow> (\<exists>d. dns_lookup out = Some d \<and> dns_error d \<noteq> None)"
    using assms(4) by (cases "dns_lookup out") auto
  have e4: "(\<exists>r e. speedtest out = Some r \<and> speed_error r = Some e \<and> e \<noteq> [])
              \<longleftrightarrow> (\<exists>r. speedtest out = Some r \<and> speed_error r \<noteq> None)"
    using collect_Done(8) [OF assms(1)] by (cases "speedtest out") auto
  have g: "router_gateway out = Some [] \<longrightarrow> router_ping out = None"
    using collect_Done(3) [OF assms(1)] by (simp add: truthy_str_def)
  show ?thesis
    using hadError_truthiness [OF assms(1)] g
    unfolding e1 e2 e3 e4 by blast
qed

text \<open>A run in which nothing is null and no error is carried: the flag is false.\<close>

theorem hadError_flag_witness:
  "collect ''2026-01-25T14:25:00.000Z'' missing home_exec (json_const (Inl [])) no_coerce
     home_options = Done (home_report, False)
   \<and> wifi home_report \<noteq> None \<and> router_gateway home_report \<noteq> None
   \<and> dns_server home_report \<noteq> None \<and> router_ping home_report \<noteq> None
   \<and> internet_ping home_report \<noteq> None \<and> dns_lookup home_report \<noteq> None
   \<and> \<not> meta_speedtest home_report
   \<and> Option.bind (router_ping home_report) ping_error = None
   \<and> Option.bind (internet_ping home_report) ping_error = None
   \<and> Option.bind (dns_lookup home_report) dns_error = None"
proof -
  have e: "Option.bind (router_ping home_report) ping_error \<noteq> Some []"
    "Option.bind (internet_ping home_report) ping_error \<noteq> Some []"
    "Option.bind (dns_lookup home_report) dns_error \<noteq> Some []"
    by (simp_all add: home_report_def silent_ping_def)
  show ?thesis
    using collect_home hadError_flag [OF collect_home e]
    by (simp add: home_report_def silent_ping_def)
qed

text \<open>
  C1, as stated: the flag is also true when a mandatory probe result has all of its
  numeric fields null. When \<open>ping\<close> succeeds and prints no summary, both ping results
  have null statistics and no error, every other probe succeeds, and the flag is false.
\<close>

theorem hadError_misses_empty_statistics:
  "collect ''2026-01-25T14:25:00.000Z'' missing home_exec (json_const (Inl [])) no_coerce
     home_options = Done (home_report, False)
   \<and> spec_hadError home_report"
  using collect_home
  by (simp add: spec_hadError_def home_report_def spec_ping_failed_def silent_ping_def)


section \<open>Facts about the matcher\<close>

lemma map_option_same [simp]: "map_option (\<lambda>g. g) cur = cur"
  by (cases cur) simp_all

lemma attempt_Some:
  "attempt r lo k s cur caps = Some y \<Longrightarrow>
     \<exists>j. lo \<le> j \<and> j \<le> k \<and> run r (drop j s) (map_option (\<lambda>g. g @ take j s) cur) caps = Some y"
proof (induction k)
  case 0
  then show ?case by (auto split: if_splits)
next
  case (Suc k)
  show ?case
  proof (cases "run r (drop (Suc k) s) (map_option (\<lambda>g. g @ take (Suc k) s) cur) caps")
    case None
    with Suc.prems have "attempt r lo k s cur caps = Some y"
      by (auto split: if_splits)
    from Suc.IH [OF this] show ?thesis
      by (meson le_Suc_eq)
  next
    case (Some z)
    with Suc.prems have "\<not> Suc k < lo" "z = y"
      by (auto split: if_splits)
    with Some show ?thesis
      by (intro exI [of _ "Suc k"]) simp
  qed
qed

lemma attempt_first:
  "lo \<le> k \<Longrightarrow> run r (drop k s) (map_option (\<lambda>g. g @ take k s) cur) caps = Some y \<Longrightarrow>
     attempt r lo k s cur caps = Some y"
  by (cases k) simp_all

lemma starts_with_take: "starts_with l s \<longleftrightarrow> length l \<le> length s \<and> take (length l) s = l"
  by (induction l s rule: starts_with.induct) auto

lemma starts_with_append [simp]: "starts_with l (l @ t)"
  by (simp add: starts_with_take)

lemma run_lit:
  "run (lit l @ r) s cur caps =
     (if starts_with l s then run r (drop (length l) s) (map_option (\<lambda>g. g @ l) cur) caps
      else None)"
proof (induction l arbitrary: s cur)
  case Nil
  then show ?case by (simp add: lit_def)
next
  case (Cons c l)
  have step: "run (lit (c # l) @ r) s cur caps =
      (case s of [] \<Rightarrow> None
       | d # ds \<Rightarrow> if d = c then run (lit l @ r) ds (map_option (\<lambda>g. g @ [c]) cur) caps else None)"
    by (cases s) (simp_all add: lit_def split: option.splits)
  show ?case
  proof (cases s)
    case Nil
    show ?thesis using step by (simp add: Nil)
  next
    case (Cons d ds)
    show ?thesis using step
      by (simp add: Cons Cons.IH option.map_comp comp_def)
  qed
qed

lemma js_includes_drop: "js_includes l (drop j s) \<Longrightarrow> js_includes l s"
proof (induction s arbitrary: j)
  case Nil
  then show ?case by simp
next
  case (Cons c cs)
  then show ?case by (cases j) auto
qed

lemma starts_with_includes: "starts_with l s \<Longrightarrow> js_includes l s"
  by (cases s) (auto simp add: starts_with_take)

lemma run_needs_literal:
  "run (pre @ lit l @ post) s cur caps = Some y \<Longrightarrow> js_includes l s"
proof (induction pre arbitrary: s cur caps)
  case Nil
  then show ?case
    by (auto simp add: run_lit starts_with_includes split: if_splits)
next
  case (Cons a pre)
  show ?case
  proof (cases a)
    case (Atom p lo hi)
    with Cons.prems obtain j where
      "run (pre @ lit l @ post) (drop j s) (map_option (\<lambda>g. g @ take j s) cur) caps = Some y"
      using attempt_Some by fastforce
    from Cons.IH [OF this] show ?thesis by (rule js_includes_drop)
  next
    case Open
    with Cons show ?thesis by simp
  next
    case Close
    with Cons show ?thesis by simp
  qed
qed

lemma js_match_run:
  "js_match re s = Some y \<Longrightarrow> \<exists>j. run re (drop j s) None [] = Some y"
proof (induction s)
  case Nil
  then show ?case by (simp add: js_match.simps)
next
  case (Cons c cs)
  show ?case
  proof (cases "run re (c # cs) None []")
    case None
    with Cons.prems have "js_match re cs = Some y" by (simp add: js_match.simps)
    from Cons.IH [OF this] obtain j where "run re (drop j cs) None [] = Some y" ..
    then have "run re (drop (Suc j) (c # cs)) None [] = Some y" by simp
    then show ?thesis ..
  next
    case (Some z)
    with Cons.prems have "run re (drop 0 (c # cs)) None [] = Some y" by (simp add: js_match.simps)
    then show ?thesis ..
  qed
qed

lemma closes_append [simp]: "closes (a @ b) = closes a + closes b"
  by (induction a rule: closes.induct) simp_all

lemma closes_lit [simp]: "closes (lit l) = 0" "closes (lit_i l) = 0"
  by (induction l) (simp_all add: lit_def lit_i_def)

lemma closes_grp [simp]: "closes (grp r) = Suc (closes r)"
  by (simp add: grp_def)

lemma run_attempt_length:
  "(run re s cur caps = Some y \<longrightarrow> length y = length caps + closes re)"
  "(attempt r lo k s cur caps = Some y \<longrightarrow> length y = length caps + closes r)"
  by (induction re s cur caps and r lo k s cur caps rule: run_attempt.induct)
     (auto split: if_splits option.splits)

lemma js_match_length: "js_match re s = Some m \<Longrightarrow> length m = closes re"
  using js_match_run [of re s m] run_attempt_length(1) [of re _ None "[]" m]
  by auto

lemma group_counts:
  "closes re_ssid = 1" "closes re_signal = 2" "closes re_channel = 2" "closes re_transmit = 1"
  "closes re_band = 1" "closes re_loss = 1" "closes re_rtt = 4"
  by (simp_all add: re_ssid_def re_signal_def re_channel_def re_transmit_def re_band_def
      re_loss_def re_rtt_def plus_def star_def opt_def times_def)

lemma js_match_needs_literal:
  "\<not> js_includes l s \<Longrightarrow> js_match (pre @ lit l @ post) s = None"
proof (rule ccontr)
  assume no: "\<not> js_includes l s" and "js_match (pre @ lit l @ post) s \<noteq> None"
  then obtain y where "js_match (pre @ lit l @ post) s = Some y" by auto
  then obtain j where "run (pre @ lit l @ post) (drop j s) None [] = Some y"
    using js_match_run by blast
  then have "js_includes l (drop j s)" by (rule run_needs_literal)
  then have "js_includes l s" by (rule js_includes_drop)
  with no show False by simp
qed

section \<open>Absent patterns\<close>

subsection \<open>The value of a key\<close>

lemma js_join_head: "js_join sep ((x # p) # ps) = x # js_join sep (p # ps)"
  by (cases ps) simp_all

lemma js_join_split: "js_join [c] (js_split c s) = s"
proof (induction s)
  case Nil
  show ?case by simp
next
  case (Cons x xs)
  obtain p ps where sp: "js_split c xs = p # ps"
    using js_split_nonempty [of c xs] by (cases "js_split c xs") auto
  show ?case
    using Cons.IH by (simp add: sp js_join_head)
qed

lemma js_split_at:
  "c \<in> set s \<Longrightarrow>
     js_split c s = takeWhile (\<lambda>x. x \<noteq> c) s # js_split c (tl (dropWhile (\<lambda>x. x \<noteq> c) s))"
proof (induction s)
  case Nil
  then show ?case by simp
next
  case (Cons x xs)
  show ?case
  proof (cases "x = c")
    case True
    then show ?thesis by simp
  next
    case False
    with Cons.prems have "c \<in> set xs" by simp
    from Cons.IH [OF this] False show ?thesis by simp
  qed
qed

lemma airport_line_apply:
  assumes "k \<noteq> []"
  shows "airport_line data line k =
           (if key_line k line
            then Some (js_trim (tl (dropWhile (\<lambda>c. c \<noteq> CHR '':'') line)))
            else data k)"
proof (cases "CHR '':'' \<in> set line")
  case False
  then show ?thesis by (simp add: airport_line_def key_line_def)
next
  case True
  have sp: "js_split (CHR '':'') line =
      takeWhile (\<lambda>c. c \<noteq> CHR '':'') line
        # js_split (CHR '':'') (tl (dropWhile (\<lambda>c. c \<noteq> CHR '':'') line))"
    using True by (rule js_split_at)
  have jn: "js_join '':'' (js_split (CHR '':'') (tl (dropWhile (\<lambda>c. c \<noteq> CHR '':'') line)))
              = tl (dropWhile (\<lambda>c. c \<noteq> CHR '':'') line)"
    by (rule js_join_split)
  show ?thesis
    using True assms by (auto simp add: airport_line_def key_line_def sp jn Let_def)
qed

lemma foldl_airport_line:
  assumes "k \<noteq> []"
  shows "foldl airport_line data lines k =
           (case rev (filter (key_line k) lines) of
              [] \<Rightarrow> data k
            | line # earlier \<Rightarrow> Some (js_trim (tl (dropWhile (\<lambda>c. c \<noteq> CHR '':'') line))))"
proof (induction lines arbitrary: data)
  case Nil
  show ?case by simp
next
  case (Cons l ls)
  show ?case
    by (cases "rev (filter (key_line k) ls)")
       (simp_all add: Cons.IH airport_line_apply [OF assms])
qed

lemma airport_data_last_value: "k \<noteq> [] \<Longrightarrow> airport_data s k = last_value k s"
  by (simp add: airport_data_def last_value_def foldl_airport_line)

lemma parseIntField_null: "parseIntField v = None \<longleftrightarrow> v = None \<or> v = Some []"
  by (cases v) (simp_all add: parseIntField_def truthy_str_def)

lemma airport_fields:
  "ssid (parseAirportOutput s) = last_value ''SSID'' s"
  "bssid (parseAirportOutput s) = last_value ''BSSID'' s"
  "signalDbm (parseAirportOutput s) = parseIntField (last_value ''agrCtlRSSI'' s)"
  "noiseDbm (parseAirportOutput s) = parseIntField (last_value ''agrCtlNoise'' s)"
  "linkRateMbps (parseAirportOutput s) = parseIntField (last_value ''lastTxRate'' s)"
  by (simp_all add: parseAirportOutput_def airport_record_def Let_def airport_data_last_value)

lemma airport_channel_null:
  "channel (parseAirportOutput s) = None \<longleftrightarrow>
     (case last_value ''channel'' s of None \<Rightarrow> True
      | Some v \<Rightarrow> takeWhile (\<lambda>c. c \<noteq> CHR '','') v = [])"
  by (simp add: parseAirportOutput_channel_token airport_data_last_value split: option.splits)

lemma airport_band_null:
  "channel (parseAirportOutput s) = None \<Longrightarrow> band (parseAirportOutput s) = None"
  by (simp add: parseAirportOutput_band_of_channel)

subsection \<open>No exception\<close>

lemma airport_line_checked_returns:
  "airport_line_checked data line = Inr (airport_line data line)"
proof -
  obtain p ps where sp: "js_split (CHR '':'') line = p # ps"
    using js_split_nonempty [of "CHR '':''" line] by (cases "js_split (CHR '':'') line") auto
  show ?thesis
    by (simp add: airport_line_checked_def airport_line_def call_trim_def sp Let_def)
qed

lemma airport_loop_returns: "airport_loop data lines = Inr (foldl airport_line data lines)"
  by (induction lines arbitrary: data) (simp_all add: airport_line_checked_returns)

lemma parseAirportOutput_returns: "parseAirportOutput_checked s = Inr (parseAirportOutput s)"
  by (simp add: parseAirportOutput_checked_def parseAirportOutput_def airport_data_def
      airport_loop_returns)

lemma group_at_capture:
  "1 \<le> i \<Longrightarrow> i \<le> length m \<Longrightarrow> group_at m i = Some (capture m i)"
  by (simp add: group_at_def capture_def)

lemma groups_present:
  "js_match re_ssid s = Some m \<Longrightarrow> group_at m 1 = Some (capture m 1)"
  "js_match re_signal s = Some m \<Longrightarrow>
     group_at m 1 = Some (capture m 1) \<and> group_at m 2 = Some (capture m 2)"
  "js_match re_channel s = Some m \<Longrightarrow>
     group_at m 1 = Some (capture m 1) \<and> group_at m 2 = Some (capture m 2)"
  "js_match re_transmit s = Some m \<Longrightarrow> group_at m 1 = Some (capture m 1)"
  "js_match re_band s = Some m \<Longrightarrow> group_at m 1 = Some (capture m 1)"
  "js_match re_loss s = Some m \<Longrightarrow> group_at m 1 = Some (capture m 1)"
  "js_match re_rtt s = Some m \<Longrightarrow>
     group_at m 2 = Some (capture m 2) \<and> group_at m 4 = Some (capture m 4)"
  using js_match_length [of _ s m]
  by (auto simp add: group_counts intro!: group_at_capture)

lemma parsePingStats_returns: "parsePingStats_checked s = Inr (parsePingStats s)"
proof -
  have "map_option (\<lambda>m. parseFloat (as_text (group_at m 2))) (js_match re_rtt s)
          = map_option (\<lambda>m. parseFloat (capture m 2)) (js_match re_rtt s)"
       "map_option (\<lambda>m. parseFloat (as_text (group_at m 4))) (js_match re_rtt s)
          = map_option (\<lambda>m. parseFloat (capture m 4)) (js_match re_rtt s)"
       "map_option (\<lambda>m. parseFloat (as_text (group_at m 1))) (js_match re_loss s)
          = map_option (\<lambda>m. parseFloat (capture m 1)) (js_match re_loss s)"
    using groups_present(6,7) [of s]
    by (cases "js_match re_rtt s"; cases "js_match re_loss s"; simp add: as_text_def)+
  then show ?thesis
    by (simp add: parsePingStats_checked_def parsePingStats_def Let_def)
qed

lemma profiler_band_returns:
  "(case js_match re_channel s of None \<Rightarrow> None
    | Some m \<Rightarrow>
        if truthy_str (group_at m 2) then
          (case js_match re_band (as_text (group_at m 2)) of None \<Rightarrow> None
           | Some bandMatch \<Rightarrow> Some (as_text (group_at bandMatch 1) @ '' GHz''))
        else None)
   = (case js_match re_channel s of None \<Rightarrow> None
      | Some m \<Rightarrow>
          if capture m 2 \<noteq> [] then
            (case js_match re_band (capture m 2) of None \<Rightarrow> None
             | Some bandMatch \<Rightarrow> Some (capture bandMatch 1 @ '' GHz''))
          else None)"
proof (cases "js_match re_channel s")
  case None
  then show ?thesis by simp
next
  case (Some m)
  from groups_present(3) [OF this] have g: "group_at m 2 = Some (capture m 2)" by simp
  show ?thesis
  proof (cases "js_match re_band (capture m 2)")
    case None
    with Some g show ?thesis by (simp add: truthy_str_def as_text_def)
  next
    case (Some bm)
    from groups_present(5) [OF this] have "group_at bm 1 = Some (capture bm 1)" .
    with Some \<open>js_match re_channel s = Some m\<close> g show ?thesis
      by (simp add: truthy_str_def as_text_def)
  qed
qed

lemma parseSystemProfilerOutput_returns:
  "parseSystemProfilerOutput_checked s = Inr (parseSystemProfilerOutput s)"
proof -
  have nums:
    "map_option (\<lambda>m. parseInt (as_text (group_at m 1))) (js_match re_channel s)
       = map_option (\<lambda>m. parseInt (capture m 1)) (js_match re_channel s)"
    "map_option (\<lambda>m. parseInt (as_text (group_at m 1))) (js_match re_signal s)
       = map_option (\<lambda>m. parseInt (capture m 1)) (js_match re_signal s)"
    "map_option (\<lambda>m. parseInt (as_text (group_at m 2))) (js_match re_signal s)
       = map_option (\<lambda>m. parseInt (capture m 2)) (js_match re_signal s)"
    "map_option (\<lambda>m. parseInt (as_text (group_at m 1))) (js_match re_transmit s)
       = map_option (\<lambda>m. parseInt (capture m 1)) (js_match re_transmit s)"
    using groups_present(2,3,4) [of s]
    by (cases "js_match re_channel s"; cases "js_match re_signal s";
        cases "js_match re_transmit s"; simp add: as_text_def)+
  have name:
    "(case js_match re_ssid s of None \<Rightarrow> Inr None
      | Some m \<Rightarrow> map_sum (\<lambda>e. e) Some (call_trim (group_at m 1)))
     = Inr (map_option (\<lambda>m. js_trim (capture m 1)) (js_match re_ssid s))"
    using groups_present(1) [of s]
    by (cases "js_match re_ssid s") (simp_all add: call_trim_def)
  show ?thesis
    unfolding parseSystemProfilerOutput_checked_def parseSystemProfilerOutput_def Let_def
      nums name profiler_band_returns
    by simp
qed

subsection \<open>Null fields\<close>

lemma re_band_empty: "js_match re_band [] = None"
  by code_simp

lemma profiler_band_null:
  "band (parseSystemProfilerOutput s) = None \<longleftrightarrow>
     (case js_match re_channel s of None \<Rightarrow> True
      | Some m \<Rightarrow> js_match re_band (capture m 2) = None)"
  by (auto simp add: parseSystemProfilerOutput_def Let_def re_band_empty
      split: option.splits if_splits)

text \<open>A text without the literal words of a pattern has no match of it.\<close>

lemma re_shapes:
  "re_loss = (Open # [plus digit_or_dot] @ [Close]) @ lit ''% packet loss'' @ []"
  "re_rtt = [] @ lit ''round-trip min/avg/max/stddev = ''
     @ (grp [plus digit_or_dot] @ lit ''/'' @ grp [plus digit_or_dot] @ lit ''/''
        @ grp [plus digit_or_dot] @ lit ''/'' @ grp [plus digit_or_dot] @ lit '' ms'')"
  "re_ssid = [] @ lit ''Current Network Information:''
     @ ([star is_space] @ lit [newline] @ [times 12 is_space] @ grp [plus not_line_end] @ lit '':'')"
  "re_signal = [] @ lit ''Signal / Noise: ''
     @ (grp [opt (\<lambda>c. c = CHR ''-''), plus is_digit] @ lit '' dBm / ''
        @ grp [opt (\<lambda>c. c = CHR ''-''), plus is_digit] @ lit '' dBm'')"
  "re_channel = [] @ lit ''Channel: ''
     @ (grp [plus is_digit] @ lit '' ('' @ grp [plus (\<lambda>c. c \<noteq> CHR '')'')] @ lit '')'')"
  "re_transmit = [] @ lit ''Transmit Rate: '' @ grp [plus is_digit]"
  by (simp_all add: re_loss_def re_rtt_def re_ssid_def re_signal_def re_channel_def
      re_transmit_def grp_def)

lemma absent_patterns:
  "\<not> js_includes ''% packet loss'' s \<Longrightarrow> js_match re_loss s = None"
  "\<not> js_includes ''round-trip min/avg/max/stddev = '' s \<Longrightarrow> js_match re_rtt s = None"
  "\<not> js_includes ''Current Network Information:'' s \<Longrightarrow> js_match re_ssid s = None"
  "\<not> js_includes ''Signal / Noise: '' s \<Longrightarrow> js_match re_signal s = None"
  "\<not> js_includes ''Channel: '' s \<Longrightarrow> js_match re_channel s = None"
  "\<not> js_includes ''Transmit Rate: '' s \<Longrightarrow> js_match re_transmit s = None"
  unfolding re_shapes by (rule js_match_needs_literal, assumption)+

text \<open>
  C9. Evaluated with the rules for a missing array element or group, each of the three
  parsers returns a record for every input text and throws nothing; the record is the
  one of the definitions in the section on the parsers. A field is null exactly when
  its pattern is absent from the text. For the two pattern-based parsers a pattern is
  absent when the regular expression has no match in the text; the band, which is read
  with a second expression from the annotation of the channel, is null when the
  channel pattern is absent or the annotation has no match of the band pattern. For
  the key and value parser the pattern of a field is a line that carries its key:
  \<open>ssid\<close> and \<open>bssid\<close> are the value the text gives to their key, a numeric field is
  null when the text gives its key no value or an empty one, the channel is null when
  nothing stands before the first comma of the value, and the band is null whenever
  the channel is.
\<close>

theorem parsers_total_and_null_when_absent:
  "parsePingStats_checked s = Inr (parsePingStats s)
   \<and> parseSystemProfilerOutput_checked s = Inr (parseSystemProfilerOutput s)
   \<and> parseAirportOutput_checked s = Inr (parseAirportOutput s)
   \<and> (js_match re_loss s = None \<longleftrightarrow> lossPct (parsePingStats s) = None)
   \<and> (js_match re_rtt s = None \<longleftrightarrow> avgMs (parsePingStats s) = None)
   \<and> (js_match re_rtt s = None \<longleftrightarrow> jitterMs (parsePingStats s) = None)
   \<and> (js_match re_ssid s = None \<longleftrightarrow> ssid (parseSystemProfilerOutput s) = None)
   \<and> bssid (parseSystemProfilerOutput s) = None
   \<and> (js_match re_signal s = None \<longleftrightarrow> signalDbm (parseSystemProfilerOutput s) = None)
   \<and> (js_match re_signal s = None \<longleftrightarrow> noiseDbm (parseSystemProfilerOutput s) = None)
   \<and> (js_match re_channel s = None \<longleftrightarrow> channel (parseSystemProfilerOutput s) = None)
   \<and> ((case js_match re_channel s of None \<Rightarrow> True
         | Some m \<Rightarrow> js_match re_band (capture m 2) = None)
        \<longleftrightarrow> band (parseSystemProfilerOutput s) = None)
   \<and> (js_match re_transmit s = None \<longleftrightarrow> linkRateMbps (parseSystemProfilerOutput s) = None)
   \<and> ssid (parseAirportOutput s) = last_value ''SSID'' s
   \<and> bssid (parseAirportOutput s) = last_value ''BSSID'' s
   \<and> (last_value ''agrCtlRSSI'' s \<in> {None, Some []}
        \<longleftrightarrow> signalDbm (parseAirportOutput s) = None)
   \<and> (last_value ''agrCtlNoise'' s \<in> {None, Some []}
        \<longleftrightarrow> noiseDbm (parseAirportOutput s) = None)
   \<and> (last_value ''lastTxRate'' s \<in> {None, Some []}
        \<longleftrightarrow> linkRateMbps (parseAirportOutput s) = None)
   \<and> ((case last_value ''channel'' s of None \<Rightarrow> True
         | Some v \<Rightarrow> takeWhile (\<lambda>c. c \<noteq> CHR '','') v = [])
        \<longleftrightarrow> channel (parseAirportOutput s) = None)
   \<and> (channel (parseAirportOutput s) = None \<longrightarrow> band (parseAirportOutput s) = None)"
proof -
  have ret_ping: "parsePingStats_checked s = Inr (parsePingStats s)"
    by (rule parsePingStats_returns)
  have ret_profiler: "parseSystemProfilerOutput_checked s = Inr (parseSystemProfilerOutput s)"
    by (rule parseSystemProfilerOutput_returns)
  have ret_airport: "parseAirportOutput_checked s = Inr (parseAirportOutput s)"
    by (rule parseAirportOutput_returns)
  have loss: "js_match re_loss s = None \<longleftrightarrow> lossPct (parsePingStats s) = None"
    by (simp add: parsePingStats_def Let_def)
  have avg: "js_match re_rtt s = None \<longleftrightarrow> avgMs (parsePingStats s) = None"
    by (simp add: parsePingStats_def Let_def)
  have jitter: "js_match re_rtt s = None \<longleftrightarrow> jitterMs (parsePingStats s) = None"
    by (simp add: parsePingStats_def Let_def)
  have name: "js_match re_ssid s = None \<longleftrightarrow> ssid (parseSystemProfilerOutput s) = None"
    by (simp add: parseSystemProfilerOutput_def Let_def)
  have station: "bssid (parseSystemProfilerOutput s) = None"
    by (simp add: parseSystemProfilerOutput_def Let_def)
  have signal: "js_match re_signal s = None \<longleftrightarrow> signalDbm (parseSystemProfilerOutput s) = None"
    by (simp add: parseSystemProfilerOutput_def Let_def)
  have noise: "js_match re_signal s = None \<longleftrightarrow> noiseDbm (parseSystemProfilerOutput s) = None"
    by (simp add: parseSystemProfilerOutput_def Let_def)
  have chan: "js_match re_channel s = None \<longleftrightarrow> channel (parseSystemProfilerOutput s) = None"
    by (simp add: parseSystemProfilerOutput_def Let_def)
  have bnd: "(case js_match re_channel s of None \<Rightarrow> True
       | Some m \<Rightarrow> js_match re_band (capture m 2) = None)
      \<longleftrightarrow> band (parseSystemProfilerOutput s) = None"
    by (simp add: profiler_band_null)
  have rate: "js_match re_transmit s = None \<longleftrightarrow> linkRateMbps (parseSystemProfilerOutput s) = None"
    by (simp add: parseSystemProfilerOutput_def Let_def)
  have a_name: "ssid (parseAirportOutput s) = last_value ''SSID'' s"
    by (rule airport_fields)
  have a_station: "bssid (parseAirportOutput s) = last_value ''BSSID'' s"
    by (rule airport_fields)
  have a_signal: "last_value ''agrCtlRSSI'' s \<in> {None, Some []}
      \<longleftrightarrow> signalDbm (parseAirportOutput s) = None"
    by (simp add: airport_fields parseIntField_null)
  have a_noise: "last_value ''agrCtlNoise'' s \<in> {None, Some []}
      \<longleftrightarrow> noiseDbm (parseAirportOutput s) = None"
    by (simp add: airport_fields parseIntField_null)
  have a_rate: "last_value ''lastTxRate'' s \<in> {None, Some []}
      \<longleftrightarrow> linkRateMbps (parseAirportOutput s) = None"
    by (simp add: airport_fields parseIntField_null)
  have a_chan: "(case last_value ''channel'' s of None \<Rightarrow> True
       | Some v \<Rightarrow> takeWhile (\<lambda>c. c \<noteq> CHR '','') v = [])
      \<longleftrightarrow> channel (parseAirportOutput s) = None"
    by (simp add: airport_channel_null)
  have a_bnd: "channel (parseAirportOutput s) = None \<longrightarrow> band (parseAirportOutput s) = None"
    by (simp add: airport_band_null)
  show ?thesis
    by (intro conjI; fact)
qed

lemma partial_matches:
  "js_match re_loss ping_partial = None"
  "js_match re_rtt ping_partial = None"
  "js_match re_ssid profiler_partial = None"
  "js_match re_signal profiler_partial = None"
  "js_match re_channel profiler_partial = Some [''48'', ''wide'']"
  "js_match re_band ''wide'' = None"
  "js_match re_transmit profiler_partial = None"
  by code_simp+

lemma partial_values:
  "last_value ''SSID'' airport_partial = None"
  "last_value ''BSSID'' airport_partial = None"
  "last_value ''agrCtlRSSI'' airport_partial = Some []"
  "last_value ''agrCtlNoise'' airport_partial = None"
  "last_value ''lastTxRate'' airport_partial = None"
  "last_value ''channel'' airport_partial = Some '',1''"
  by code_simp+

text \<open>
  Three texts in which the words of the patterns occur and the patterns do not: a ping
  summary without a loss figure and with two round-trip figures, a channel annotated
  without a band next to half a signal line, and keys with empty values. Every field
  is null except the channel 48 of the second text.
\<close>

theorem parsers_total_and_null_when_absent_witness:
  "parsePingStats_checked ping_partial
     = Inr \<lparr> avgMs = None, jitterMs = None, lossPct = None \<rparr>
   \<and> parseSystemProfilerOutput_checked profiler_partial
     = Inr \<lparr> ssid = None, bssid = None, signalDbm = None, noiseDbm = None,
             channel = Some (Fin 48), band = None, linkRateMbps = None \<rparr>
   \<and> parseAirportOutput_checked airport_partial
     = Inr \<lparr> ssid = None, bssid = None, signalDbm = None, noiseDbm = None, channel = None,
             band = None, linkRateMbps = None \<rparr>"
proof -
  note ping = parsers_total_and_null_when_absent [of ping_partial]
  note profiler = parsers_total_and_null_when_absent [of profiler_partial]
  note airport = parsers_total_and_null_when_absent [of airport_partial]
  have "parsePingStats ping_partial = \<lparr> avgMs = None, jitterMs = None, lossPct = None \<rparr>"
    using ping [THEN conjunct2, THEN conjunct2, THEN conjunct2, THEN conjunct1]
      ping [THEN conjunct2, THEN conjunct2, THEN conjunct2, THEN conjunct2, THEN conjunct1]
      ping [THEN conjunct2, THEN conjunct2, THEN conjunct2, THEN conjunct2, THEN conjunct2, THEN conjunct1]
    by (simp add: partial_matches PingStats.equality)
  then have p: "parsePingStats_checked ping_partial
      = Inr \<lparr> avgMs = None, jitterMs = None, lossPct = None \<rparr>"
    using ping [THEN conjunct1] by simp
  have c: "channel (parseSystemProfilerOutput profiler_partial) = Some (Fin 48)"
    by (simp add: parseSystemProfilerOutput_def Let_def partial_matches capture_def
        number_parsers)
  have "parseSystemProfilerOutput profiler_partial
      = \<lparr> ssid = None, bssid = None, signalDbm = None, noiseDbm = None,
          channel = Some (Fin 48), band = None, linkRateMbps = None \<rparr>"
    using c profiler [THEN conjunct2, THEN conjunct2, THEN conjunct2, THEN conjunct2, THEN conjunct2, THEN conjunct2, THEN conjunct1]
      profiler [THEN conjunct2, THEN conjunct2, THEN conjunct2, THEN conjunct2, THEN conjunct2, THEN conjunct2, THEN conjunct2, THEN conjunct1]
      profiler [THEN conjunct2, THEN conjunct2, THEN conjunct2, THEN conjunct2, THEN conjunct2, THEN conjunct2, THEN conjunct2, THEN conjunct2, THEN conjunct1]
      profiler [THEN conjunct2, THEN conjunct2, THEN conjunct2, THEN conjunct2, THEN conjunct2, THEN conjunct2, THEN conjunct2, THEN conjunct2, THEN conjunct2, THEN conjunct1]
      profiler [THEN conjunct2, THEN conjunct2, THEN conjunct2, THEN conjunct2, THEN conjunct2, THEN conjunct2, THEN conjunct2, THEN conjunct2, THEN conjunct2, THEN conjunct2, THEN conjunct2, THEN conjunct1]
      profiler [THEN conjunct2, THEN conjunct2, THEN conjunct2, THEN conjunct2, THEN conjunct2, THEN conjunct2, THEN conjunct2, THEN conjunct2, THEN conjunct2, THEN conjunct2, THEN conjunct2, THEN conjunct2, THEN conjunct1]
    by (simp add: partial_matches capture_def WifiStats.equality)
  then have s: "parseSystemProfilerOutput_checked profiler_partial
      = Inr \<lparr> ssid = None, bssid = None, signalDbm = None, noiseDbm = None,
              channel = Some (Fin 48), band = None, linkRateMbps = None \<rparr>"
    using profiler [THEN conjunct2, THEN conjunct1] by simp
  have ch: "channel (parseAirportOutput airport_partial) = None"
    using airport [THEN conjunct2, THEN conjunct2, THEN conjunct2, THEN conjunct2, THEN conjunct2, THEN conjunct2, THEN conjunct2, THEN conjunct2, THEN conjunct2, THEN conjunct2, THEN conjunct2, THEN conjunct2, THEN conjunct2, THEN conjunct2, THEN conjunct2, THEN conjunct2, THEN conjunct2, THEN conjunct2, THEN conjunct1]
    by (simp add: partial_values)
  have "parseAirportOutput airport_partial
      = \<lparr> ssid = None, bssid = None, signalDbm = None, noiseDbm = None, channel = None,
          band = None, linkRateMbps = None \<rparr>"
    using ch airport [THEN conjunct2, THEN conjunct2, THEN conjunct2, THEN conjunct2, THEN conjunct2, THEN conjunct2, THEN conjunct2, THEN conjunct2, THEN conjunct2, THEN conjunct2, THEN conjunct2, THEN conjunct2, THEN conjunct2, THEN conjunct1]
      airport [THEN conjunct2, THEN conjunct2, THEN conjunct2, THEN conjunct2, THEN conjunct2, THEN conjunct2, THEN conjunct2, THEN conjunct2, THEN conjunct2, THEN conjunct2, THEN conjunct2, THEN conjunct2, THEN conjunct2, THEN conjunct2, THEN conjunct1]
      airport [THEN conjunct2, THEN conjunct2, THEN conjunct2, THEN conjunct2, THEN conjunct2, THEN conjunct2, THEN conjunct2, THEN conjunct2, THEN conjunct2, THEN conjunct2, THEN conjunct2, THEN conjunct2, THEN conjunct2, THEN conjunct2, THEN conjunct2, THEN conjunct1]
      airport [THEN conjunct2, THEN conjunct2, THEN conjunct2, THEN conjunct2, THEN conjunct2, THEN conjunct2, THEN conjunct2, THEN conjunct2, THEN conjunct2, THEN conjunct2, THEN conjunct2, THEN conjunct2, THEN conjunct2, THEN conjunct2, THEN conjunct2, THEN conjunct2, THEN conjunct1]
      airport [THEN conjunct2, THEN conjunct2, THEN conjunct2, THEN conjunct2, THEN conjunct2, THEN conjunct2, THEN conjunct2, THEN conjunct2, THEN conjunct2, THEN conjunct2, THEN conjunct2, THEN conjunct2, THEN conjunct2, THEN conjunct2, THEN conjunct2, THEN conjunct2, THEN conjunct2, THEN conjunct1]
      airport [THEN conjunct2, THEN conjunct2, THEN conjunct2, THEN conjunct2, THEN conjunct2, THEN conjunct2, THEN conjunct2, THEN conjunct2, THEN conjunct2, THEN conjunct2, THEN conjunct2, THEN conjunct2, THEN conjunct2, THEN conjunct2, THEN conjunct2, THEN conjunct2, THEN conjunct2, THEN conjunct2, THEN conjunct2]
    by (simp add: partial_values WifiStats.equality)
  then have a: "parseAirportOutput_checked airport_partial
      = Inr \<lparr> ssid = None, bssid = None, signalDbm = None, noiseDbm = None, channel = None,
              band = None, linkRateMbps = None \<rparr>"
    using airport [THEN conjunct2, THEN conjunct2, THEN conjunct1] by simp
  from p s a show ?thesis by simp
qed

section \<open>The ping-statistics parser\<close>

lemma run_group_plus:
  assumes "w \<noteq> []" and "\<forall>c\<in>set w. p c" and "x \<noteq> []" and "\<not> p (hd x)"
    and "run r t None (caps @ [w]) = Some y"
  shows "run (grp [plus p] @ lit x @ r) (w @ x @ t) None caps = Some y"
proof -
  obtain c x' where x: "x = c # x'" using assms(3) by (cases x) auto
  have tw: "takeWhile p (w @ x @ t) = w"
    using assms(2,4) x by (simp add: takeWhile_append2)
  have k: "1 \<le> length w" using assms(1) by (cases w) auto
  have inner: "run (Close # lit x @ r) (drop (length w) (w @ x @ t))
                 (map_option (\<lambda>g. g @ take (length w) (w @ x @ t)) (Some [])) caps = Some y"
    using assms(5) by (simp add: run_lit)
  have "attempt (Close # lit x @ r) 1 (length w) (w @ x @ t) (Some []) caps = Some y"
    using k inner by (rule attempt_first)
  then show ?thesis
    by (simp add: grp_def plus_def tw)
qed

lemma js_match_skip:
  "js_indexOf l s = Some n \<Longrightarrow> js_match (lit l @ r) s = js_match (lit l @ r) (drop n s)"
proof (induction s arbitrary: n)
  case Nil
  then show ?case by (simp split: if_splits)
next
  case (Cons c cs)
  show ?case
  proof (cases "starts_with l (c # cs)")
    case True
    with Cons.prems show ?thesis by simp
  next
    case False
    with Cons.prems obtain m where m: "js_indexOf l cs = Some m" "n = Suc m"
      by auto
    have "run (lit l @ r) (c # cs) None [] = None"
      using False by (simp add: run_lit)
    then have "js_match (lit l @ r) (c # cs) = js_match (lit l @ r) cs"
      by (simp add: js_match.simps)
    with Cons.IH [OF m(1)] m(2) show ?thesis by simp
  qed
qed

lemma js_indexOf_self: "js_indexOf l (l @ rest) = Some 0"
  using starts_with_append [of l rest] by (cases "l @ rest") auto

lemma js_indexOf_append:
  "js_indexOf l (x @ l) = Some (length x) \<Longrightarrow> js_indexOf l (x @ l @ rest) = Some (length x)"
proof (induction x)
  case Nil
  show ?case by (simp add: js_indexOf_self)
next
  case (Cons c x)
  from Cons.prems have no: "\<not> starts_with l (c # x @ l)"
    by (auto split: if_splits)
  with Cons.prems have "js_indexOf l (x @ l) = Some (length x)"
    by auto
  from Cons.IH [OF this] have ih: "js_indexOf l (x @ l @ rest) = Some (length x)" .
  have "take (length l) ((c # x @ l) @ rest) = take (length l) (c # x @ l)"
    by (simp only: take_append) simp
  then have "\<not> starts_with l (c # x @ l @ rest)"
    using no by (auto simp add: starts_with_take)
  with ih show ?case by simp
qed

lemma js_match_here: "run re (c # cs) None [] = Some y \<Longrightarrow> js_match re (c # cs) = Some y"
  by (simp add: js_match.simps)

lemma starts_with_Cons_nth:
  "starts_with (c # l) (drop j s) \<Longrightarrow> j < length s \<and> s ! j = c"
proof -
  assume a: "starts_with (c # l) (drop j s)"
  then have ne: "drop j s \<noteq> []" by (cases "drop j s") auto
  then have j: "j < length s" by simp
  from a have "hd (drop j s) = c" by (cases "drop j s") auto
  with j show ?thesis by (simp add: hd_drop_conv_nth)
qed

lemma loss_not_before:
  assumes "CHR ''%'' \<notin> set pre" and "pre \<noteq> []" and "\<not> digit_or_dot (last pre)"
  shows "run re_loss (pre @ t) None [] = None"
proof (rule ccontr)
  assume "run re_loss (pre @ t) None [] \<noteq> None"
  then obtain y where y: "run re_loss (pre @ t) None [] = Some y" by auto
  have lastin: "last pre \<in> set pre" using assms(2) by simp
  have tw: "takeWhile digit_or_dot (pre @ t) = takeWhile digit_or_dot pre"
    using lastin assms(3) by (rule takeWhile_append1)
  have "takeWhile digit_or_dot pre \<noteq> pre"
    using lastin assms(3) by (auto simp add: takeWhile_eq_all_conv)
  then have short: "length (takeWhile digit_or_dot pre) < length pre"
    by (metis length_takeWhile_le le_neq_implies_less takeWhile_eq_take take_all_iff nat_less_le)
  from y have "attempt (Close # lit ''% packet loss'') 1 (length (takeWhile digit_or_dot pre))
                 (pre @ t) (Some []) [] = Some y"
    by (simp add: re_loss_def grp_def plus_def tw)
  then obtain j where j: "j \<le> length (takeWhile digit_or_dot pre)"
    and r: "run (Close # lit ''% packet loss'') (drop j (pre @ t))
              (map_option (\<lambda>g. g @ take j (pre @ t)) (Some [])) [] = Some y"
    using attempt_Some by blast
  from r have "run (lit ''% packet loss'' @ []) (drop j (pre @ t)) None [take j (pre @ t)] = Some y"
    by simp
  then have "starts_with ''% packet loss'' (drop j (pre @ t))"
    unfolding run_lit by (simp split: if_splits)
  then have "(pre @ t) ! j = CHR ''%''"
    using starts_with_Cons_nth by simp
  moreover have "j < length pre" using j short by simp
  ultimately have "pre ! j = CHR ''%''" by (simp add: nth_append)
  with \<open>j < length pre\<close> assms(1) show False
    by (metis nth_mem)
qed

lemma js_match_loss:
  assumes "l \<noteq> []" and "\<forall>c\<in>set l. digit_or_dot c"
  shows "CHR ''%'' \<notin> set pre \<Longrightarrow> pre = [] \<or> \<not> digit_or_dot (last pre) \<Longrightarrow>
         js_match re_loss (pre @ l @ ''% packet loss'' @ rest) = Some [l]"
proof (induction pre)
  case Nil
  have s0: "run [] rest None ([] @ [l]) = Some [l]" by simp
  have pc: "''% packet loss'' \<noteq> []" "\<not> digit_or_dot (hd ''% packet loss'')"
    by (simp_all add: digit_or_dot_def is_digit_def)
  have "run (grp [plus digit_or_dot] @ lit ''% packet loss'' @ [])
               (l @ ''% packet loss'' @ rest) None [] = Some [l]"
    by (rule run_group_plus [OF assms(1) assms(2) pc s0])
  then have "run re_loss (l @ ''% packet loss'' @ rest) None [] = Some [l]"
    by (simp add: re_loss_def)
  then show ?case
    using assms(1) by (cases l) (simp_all add: js_match.simps)
next
  case (Cons c pre)
  have "run re_loss ((c # pre) @ l @ ''% packet loss'' @ rest) None [] = None"
    using Cons.prems by (intro loss_not_before) auto
  then have "js_match re_loss ((c # pre) @ l @ ''% packet loss'' @ rest)
               = js_match re_loss (pre @ l @ ''% packet loss'' @ rest)"
    by (simp add: js_match.simps)
  moreover have "js_match re_loss (pre @ l @ ''% packet loss'' @ rest) = Some [l]"
    using Cons.prems by (intro Cons.IH) (auto split: if_splits)
  ultimately show ?case by simp
qed

lemma js_match_rtt:
  assumes first: "js_indexOf rtt_label (x @ rtt_label) = Some (length x)"
    and "mn \<noteq> []" "\<forall>c\<in>set mn. digit_or_dot c"
    and "av \<noteq> []" "\<forall>c\<in>set av. digit_or_dot c"
    and "mx \<noteq> []" "\<forall>c\<in>set mx. digit_or_dot c"
    and "sd \<noteq> []" "\<forall>c\<in>set sd. digit_or_dot c"
  shows "js_match re_rtt
           (x @ rtt_label @ mn @ ''/'' @ av @ ''/'' @ mx @ ''/'' @ sd @ '' ms'' @ post)
         = Some [mn, av, mx, sd]"
proof -
  let ?tail = "mn @ ''/'' @ av @ ''/'' @ mx @ ''/'' @ sd @ '' ms'' @ post"
  let ?r = "grp [plus digit_or_dot] @ lit ''/'' @ grp [plus digit_or_dot] @ lit ''/''
     @ grp [plus digit_or_dot] @ lit ''/'' @ grp [plus digit_or_dot] @ lit '' ms'' @ []"
  have re: "re_rtt = lit rtt_label @ ?r"
    by (simp add: re_rtt_def rtt_label_def)
  have slash: "\<not> digit_or_dot (hd ''/'')" "\<not> digit_or_dot (hd '' ms'')"
    by (simp_all add: digit_or_dot_def is_digit_def)
  have ne: "''/'' \<noteq> []" "'' ms'' \<noteq> []" by simp_all
  have s4: "run [] post None ([mn, av, mx] @ [sd]) = Some [mn, av, mx, sd]" by simp
  have "run (grp [plus digit_or_dot] @ lit '' ms'' @ []) (sd @ '' ms'' @ post) None
               [mn, av, mx] = Some [mn, av, mx, sd]"
    by (rule run_group_plus [OF assms(8) assms(9) ne(2) slash(2) s4])
  then have s3: "run (grp [plus digit_or_dot] @ lit '' ms'' @ []) (sd @ '' ms'' @ post) None
               ([mn, av] @ [mx]) = Some [mn, av, mx, sd]" by simp
  have "run (grp [plus digit_or_dot] @ lit ''/'' @ grp [plus digit_or_dot] @ lit '' ms'' @ [])
               (mx @ ''/'' @ sd @ '' ms'' @ post) None [mn, av] = Some [mn, av, mx, sd]"
    by (rule run_group_plus [OF assms(6) assms(7) ne(1) slash(1) s3])
  then have s2: "run (grp [plus digit_or_dot] @ lit ''/'' @ grp [plus digit_or_dot]
                      @ lit '' ms'' @ [])
               (mx @ ''/'' @ sd @ '' ms'' @ post) None ([mn] @ [av]) = Some [mn, av, mx, sd]"
    by simp
  have "run (grp [plus digit_or_dot] @ lit ''/'' @ grp [plus digit_or_dot] @ lit ''/''
                  @ grp [plus digit_or_dot] @ lit '' ms'' @ [])
               (av @ ''/'' @ mx @ ''/'' @ sd @ '' ms'' @ post) None [mn] = Some [mn, av, mx, sd]"
    by (rule run_group_plus [OF assms(4) assms(5) ne(1) slash(1) s2])
  then have s1: "run (grp [plus digit_or_dot] @ lit ''/'' @ grp [plus digit_or_dot] @ lit ''/''
                  @ grp [plus digit_or_dot] @ lit '' ms'' @ [])
               (av @ ''/'' @ mx @ ''/'' @ sd @ '' ms'' @ post) None ([] @ [mn])
             = Some [mn, av, mx, sd]"
    by simp
  have "run ?r ?tail None [] = Some [mn, av, mx, sd]"
    by (rule run_group_plus [OF assms(2) assms(3) ne(1) slash(1) s1])
  then have "run (lit rtt_label @ ?r) (rtt_label @ ?tail) None [] = Some [mn, av, mx, sd]"
    by (simp add: run_lit)
  then have here: "js_match (lit rtt_label @ ?r) (rtt_label @ ?tail) = Some [mn, av, mx, sd]"
    by (simp add: rtt_label_def js_match.simps)
  have "js_indexOf rtt_label (x @ rtt_label @ ?tail) = Some (length x)"
    using first by (rule js_indexOf_append)
  then have "js_match (lit rtt_label @ ?r) (x @ rtt_label @ ?tail)
               = js_match (lit rtt_label @ ?r) (drop (length x) (x @ rtt_label @ ?tail))"
    by (rule js_match_skip)
  with here show ?thesis
    by (simp add: re)
qed

text \<open>
  C5. Take a text in which a loss figure \<open>l\<close> is followed by \<open>% packet loss\<close> and,
  later, the round-trip label is followed by four figures separated by slashes and by
  \<open> ms\<close>, each figure a non-empty run of digits and dots. If the loss figure is the
  first percentage of the text and the label does not occur earlier, the parser
  returns \<open>parseFloat\<close> of the second figure as \<open>avgMs\<close>, of the fourth as
  \<open>jitterMs\<close> and of the loss figure as \<open>lossPct\<close>.
\<close>

theorem parsePingStats_summary:
  assumes "l \<noteq> []" "\<forall>c\<in>set l. digit_or_dot c"
    and "mn \<noteq> []" "\<forall>c\<in>set mn. digit_or_dot c"
    and "av \<noteq> []" "\<forall>c\<in>set av. digit_or_dot c"
    and "mx \<noteq> []" "\<forall>c\<in>set mx. digit_or_dot c"
    and "sd \<noteq> []" "\<forall>c\<in>set sd. digit_or_dot c"
    and "CHR ''%'' \<notin> set pre" "pre = [] \<or> \<not> digit_or_dot (last pre)"
    and "js_indexOf rtt_label ((pre @ l @ ''% packet loss'' @ mid) @ rtt_label)
           = Some (length (pre @ l @ ''% packet loss'' @ mid))"
  shows "parsePingStats
           (pre @ l @ ''% packet loss'' @ mid @ rtt_label
              @ mn @ ''/'' @ av @ ''/'' @ mx @ ''/'' @ sd @ '' ms'' @ post)
         = \<lparr> avgMs = Some (parseFloat av), jitterMs = Some (parseFloat sd),
             lossPct = Some (parseFloat l) \<rparr>"
proof -
  let ?s = "pre @ l @ ''% packet loss'' @ mid @ rtt_label
              @ mn @ ''/'' @ av @ ''/'' @ mx @ ''/'' @ sd @ '' ms'' @ post"
  have loss: "js_match re_loss ?s = Some [l]"
    using assms(1,2,11,12) by (rule js_match_loss)
  have "js_match re_rtt
          ((pre @ l @ ''% packet loss'' @ mid) @ rtt_label
             @ mn @ ''/'' @ av @ ''/'' @ mx @ ''/'' @ sd @ '' ms'' @ post) = Some [mn, av, mx, sd]"
    using assms(13,3-10) by (rule js_match_rtt)
  then have rtt: "js_match re_rtt ?s = Some [mn, av, mx, sd]" by simp
  show ?thesis
    unfolding parsePingStats_def Let_def loss rtt by (simp add: capture_def)
qed

lemma ping_sample_label:
  "js_indexOf rtt_label
     ((''12 packets transmitted, 12 packets received, '' @ ''0.0'' @ ''% packet loss'' @ [newline])
      @ rtt_label)
   = Some (length (''12 packets transmitted, 12 packets received, '' @ ''0.0''
                   @ ''% packet loss'' @ [newline]))"
  by code_simp

text \<open>
  The example of the specification: 0.0% loss is the number 0 and not null, the average
  is the double 10.456 and the jitter the double 0.987 (\<open>double_10_456\<close> and
  \<open>double_0_987\<close> give the rationals they denote).
\<close>

theorem parsePingStats_summary_witness:
  "parsePingStats ping_sample =
     \<lparr> avgMs = Some (to_double (10456 / 1000)), jitterMs = Some (to_double (987 / 1000)),
       lossPct = Some (Fin 0) \<rparr>
   \<and> lossPct (parsePingStats ping_sample) \<noteq> None"
proof -
  have cls: "\<forall>c\<in>set ''0.0''. digit_or_dot c" "\<forall>c\<in>set ''9.123''. digit_or_dot c"
    "\<forall>c\<in>set ''10.456''. digit_or_dot c" "\<forall>c\<in>set ''11.789''. digit_or_dot c"
    "\<forall>c\<in>set ''0.987''. digit_or_dot c"
    by (simp_all add: digit_or_dot_def is_digit_def)
  have pre: "CHR ''%'' \<notin> set ''12 packets transmitted, 12 packets received, ''"
    "''12 packets transmitted, 12 packets received, '' = []
     \<or> \<not> digit_or_dot (last ''12 packets transmitted, 12 packets received, '')"
    by (simp_all add: digit_or_dot_def is_digit_def)
  have "parsePingStats
          (''12 packets transmitted, 12 packets received, '' @ ''0.0'' @ ''% packet loss''
           @ [newline] @ rtt_label
           @ ''9.123'' @ ''/'' @ ''10.456'' @ ''/'' @ ''11.789'' @ ''/'' @ ''0.987'' @ '' ms'' @ [])
        = \<lparr> avgMs = Some (parseFloat ''10.456''), jitterMs = Some (parseFloat ''0.987''),
            lossPct = Some (parseFloat ''0.0'') \<rparr>"
    by (rule parsePingStats_summary [OF _ cls(1) _ cls(2) _ cls(3) _ cls(4) _ cls(5) pre
          ping_sample_label]) simp_all
  then show ?thesis
    by (simp add: ping_sample_def rtt_label_def number_parsers)
qed

end
